(* ===== verification/Prelude.thy ===== *)
theory Prelude
  imports Main "HOL-Library.State_Monad"
begin

text \<open>
  Shared vocabulary of the development. The helper of \<^verbatim>\<open>src/src/util.ts\<close> is an
  \<^verbatim>\<open>async\<close> TypeScript class whose every chain interaction may throw. Its methods are
  modelled in an error-state monad: a computation of \<open>('s, 'a) res\<close> is a
  \<open>('s, error + 'a) state\<close> of \<^verbatim>\<open>HOL-Library.State_Monad\<close>, \<open>Inl\<close> being a
  thrown error (a rejected promise) and \<open>Inr\<close> a returned value. \<open>bindE\<close> is
  \<^verbatim>\<open>await\<close>: an error skips the rest of the method and propagates unchanged, as an
  uncaught exception does. The theory also fixes the error values, the JavaScript
  destructuring defaults (\<open>dflt\<close>, \<open>dfltE\<close>), the error taxonomy, the typing
  of the error channel (\<open>raises_within\<close>) and the lemma collections the component
  theories share.
\<close>

named_theorems res_simps "evaluation rules of the error-state monad"
named_theorems helper_defs "definitions of the helper's methods"

type_synonym address = string
type_synonym h256 = nat

text \<open>
  Every error the program or its collaborators can raise. The first three are raised by
  the configuration layer and by \<^verbatim>\<open>util.ts\<close> itself; the others are raised by the
  chain client and the key store and are propagated by the helper unchanged.
\<close>

datatype error =
    ConfigUndefined string
  | NotSpecified string
  | FailedToMint
  | KeyNotFound address
  | KeyStoreFailure
  | InvalidSeq
  | RpcError string
  | ResultTimeout nat
  | InvalidIndex nat

type_synonym ('s, 'a) res = "('s, error + 'a) state"

definition returnE :: "'a \<Rightarrow> ('s, 'a) res" where
  "returnE a = State_Monad.return (Inr a)"

definition throwE :: "error \<Rightarrow> ('s, 'a) res" where
  "throwE e = State_Monad.return (Inl e)"

definition bindE :: "('s, 'a) res \<Rightarrow> ('a \<Rightarrow> ('s, 'b) res) \<Rightarrow> ('s, 'b) res" where
  "bindE m f = State_Monad.bind m
     (\<lambda>r. case r of Inl e \<Rightarrow> State_Monad.return (Inl e) | Inr a \<Rightarrow> f a)"

text \<open>
  JavaScript destructuring with a default, \<open>const {x = d} = obj\<close>: the default is taken
  only when the field is \<^verbatim>\<open>undefined\<close> (here \<open>None\<close>); an explicit value, even a
  falsy one such as \<open>0\<close>, is kept. \<open>dfltE\<close> is the same with a default that is an
  awaited call, evaluated only when it is needed.
\<close>

definition dflt :: "'a option \<Rightarrow> 'a \<Rightarrow> 'a" where
  "dflt x d = (case x of None \<Rightarrow> d | Some v \<Rightarrow> v)"

definition dfltE :: "'a option \<Rightarrow> ('s, 'a) res \<Rightarrow> ('s, 'a) res" where
  "dfltE x m = (case x of None \<Rightarrow> m | Some v \<Rightarrow> returnE v)"

text \<open>
  The error taxonomy of spec section 5: configuration errors, signing errors (key not
  found, key store failure, and the SDK rejecting what it is asked to sign),
  network errors, confirmation timeouts and violations of a domain invariant.
\<close>

datatype error_class = Configuration | Signing | Network | Confirmation | Domain

fun error_kind :: "error \<Rightarrow> error_class" where
  "error_kind (ConfigUndefined _) = Configuration"
| "error_kind (NotSpecified _) = Configuration"
| "error_kind FailedToMint = Domain"
| "error_kind (KeyNotFound _) = Signing"
| "error_kind KeyStoreFailure = Signing"
| "error_kind InvalidSeq = Signing"
| "error_kind (InvalidIndex _) = Signing"
| "error_kind (RpcError _) = Network"
| "error_kind (ResultTimeout _) = Confirmation"

text \<open>
  \<open>raises_within K m\<close>: every error \<open>m\<close> throws, from any state, is in \<open>K\<close>;
  the typing of a computation's error channel. The rules \<open>raises_intros\<close> type a
  method from the types of its parts.
\<close>

definition raises_within :: "error set \<Rightarrow> ('s, 'a) res \<Rightarrow> bool" where
  "raises_within K m \<longleftrightarrow> (\<forall>s e. fst (run_state m s) = Inl e \<longrightarrow> e \<in> K)"

named_theorems raises_intros "typing rules of raises_within"

subsection \<open>Evaluation rules\<close>

lemma run_returnE [simp, res_simps]: "run_state (returnE a) s = (Inr a, s)"
  by (simp add: returnE_def)

lemma run_throwE [simp, res_simps]: "run_state (throwE e) s = (Inl e, s)"
  by (simp add: throwE_def)

lemma run_bindE [simp, res_simps]:
  "run_state (bindE m f) s =
     (case run_state m s of (Inl e, s') \<Rightarrow> (Inl e, s') | (Inr a, s') \<Rightarrow> run_state (f a) s')"
  by (simp add: bindE_def split: prod.split sum.split)

lemma run_bindE_Inr [res_simps]:
  "run_state m s = (Inr a, s') \<Longrightarrow> run_state (bindE m f) s = run_state (f a) s'"
  by simp

lemma run_bindE_Inl [res_simps]:
  "run_state m s = (Inl e, s') \<Longrightarrow> run_state (bindE m f) s = (Inl e, s')"
  by simp

lemma bindE_returnE [simp]: "bindE (returnE a) f = f a"
  by (rule state.expand) (simp add: fun_eq_iff)

lemma bindE_assoc: "bindE (bindE m f) g = bindE m (\<lambda>x. bindE (f x) g)"
  by (rule state.expand) (simp add: fun_eq_iff split: prod.split sum.split)

lemma dflt_simps [simp]: "dflt None d = d" "dflt (Some v) d = v"
  by (simp_all add: dflt_def)

lemma dfltE_simps [simp, res_simps]: "dfltE None m = m" "dfltE (Some v) m = returnE v"
  by (simp_all add: dfltE_def)

text \<open>
  \<open>run_sum_cases\<close> splits the result of a run into its two shapes, thrown or
  returned: the case split the component proofs start with.
\<close>

lemma run_sum_cases:
  obtains e s' where "run_state m s = (Inl e, s')" | a s' where "run_state m s = (Inr a, s')"
  by (metis surj_pair sum.exhaust)


subsection \<open>Typing of the error channel\<close>

lemma raises_within_returnE [raises_intros]: "raises_within K (returnE a)"
  by (simp add: raises_within_def)

lemma raises_within_throwE [raises_intros]: "e \<in> K \<Longrightarrow> raises_within K (throwE e)"
  by (simp add: raises_within_def)

lemma raises_within_bindE [raises_intros]:
  assumes m: "raises_within K m" and f: "\<And>a. raises_within K (f a)"
  shows "raises_within K (bindE m f)"
  unfolding raises_within_def
proof (intro allI impI)
  fix s e
  assume thrown: "fst (run_state (bindE m f) s) = Inl e"
  show "e \<in> K"
  proof (cases rule: run_sum_cases [of m s])
    case (1 e' s')
    with thrown m show ?thesis by (simp add: raises_within_def) (metis fstI)
  next
    case (2 a s')
    with thrown f show ?thesis by (simp add: raises_within_def)
  qed
qed

lemma raises_within_dfltE [raises_intros]: "raises_within K m \<Longrightarrow> raises_within K (dfltE x m)"
  by (simp add: dfltE_def raises_within_returnE split: option.split)

lemma raises_within_mono: "raises_within K m \<Longrightarrow> K \<subseteq> K' \<Longrightarrow> raises_within K' m"
  unfolding raises_within_def by blast

end
