(* ===== verification/Config.thy ===== *)
theory Config
  imports Prelude
begin

text \<open>
  The configuration layer: \<^verbatim>\<open>getConfig\<close> and \<^verbatim>\<open>haveConfig\<close> of
  \<^verbatim>\<open>src/src/util.ts\<close> (lines 121--131), over the \<^verbatim>\<open>config\<close> package (node-config)
  that they call. A configuration maps a setting name to nothing (the setting is
  absent, \<^verbatim>\<open>undefined\<close>), to \<open>Some None\<close> (it is present and \<^verbatim>\<open>null\<close>) or to
  \<open>Some (Some v)\<close> (it holds the string \<open>v\<close>). node-config's \<^verbatim>\<open>get\<close> throws on
  an undefined setting and its \<^verbatim>\<open>has\<close> tells whether one is defined.
\<close>

type_synonym config = "string \<rightharpoonup> string option"

definition config_get :: "config \<Rightarrow> string \<Rightarrow> error + string option" where
  "config_get cfg field = (case cfg field of None \<Rightarrow> Inl (ConfigUndefined field) | Some c \<Rightarrow> Inr c)"

definition config_has :: "config \<Rightarrow> string \<Rightarrow> bool" where
  "config_has cfg field = (cfg field \<noteq> None)"

text \<open>\<^verbatim>\<open>getConfig\<close>: read the setting, then throw if it is \<^verbatim>\<open>null\<close> (\<open>c == null\<close>).\<close>

definition getConfig :: "config \<Rightarrow> string \<Rightarrow> error + string" where
  "getConfig cfg field =
     (case config_get cfg field of
        Inl e \<Rightarrow> Inl e
      | Inr c \<Rightarrow> (case c of None \<Rightarrow> Inl (NotSpecified field) | Some v \<Rightarrow> Inr v))"

text \<open>\<^verbatim>\<open>haveConfig\<close>: \<open>!!config.has(field) && config.get(field) != null\<close>.\<close>

definition haveConfig :: "config \<Rightarrow> string \<Rightarrow> bool" where
  "haveConfig cfg field = (config_has cfg field \<and> config_get cfg field \<noteq> Inr None)"

subsection \<open>Behaviour of the configuration reads\<close>

lemma getConfig_cases:
  "getConfig cfg field =
     (case cfg field of
        None \<Rightarrow> Inl (ConfigUndefined field)
      | Some None \<Rightarrow> Inl (NotSpecified field)
      | Some (Some v) \<Rightarrow> Inr v)"
  by (simp add: getConfig_def config_get_def split: option.split)

lemma haveConfig_cases:
  "haveConfig cfg field = (\<exists>v. cfg field = Some (Some v))"
  by (cases "cfg field") (auto simp: haveConfig_def config_has_def config_get_def)

text \<open>C17: the guard and the read agree.\<close>

theorem haveConfig_iff_getConfig:
  "haveConfig cfg field \<longleftrightarrow> (\<exists>v. getConfig cfg field = Inr v)"
  by (simp add: haveConfig_cases getConfig_cases split: option.split)

text \<open>
  C10: the error \<^verbatim>\<open>getConfig\<close> throws tells the two ways a setting can be missing
  apart: an absent setting fails inside node-config's \<^verbatim>\<open>get\<close> before the helper's own
  check runs, and only a setting present as \<^verbatim>\<open>null\<close> reaches
  \<^verbatim>\<open>`${field} is not specified`\<close>.
\<close>

theorem getConfig_errors:
  "getConfig cfg field = Inl e \<longleftrightarrow>
     (cfg field = None \<and> e = ConfigUndefined field) \<or> (cfg field = Some None \<and> e = NotSpecified field)"
  by (auto simp: getConfig_cases split: option.splits)

end
