(* ===== verification/Client.thy ===== *)
theory Client
  imports Prelude
begin

text \<open>
  The boundary between the helper and its external collaborators (spec section 6): the
  CodeChain SDK's chain RPC, its key API over a key store, and the transaction objects
  the SDK builds. None of this code is under \<^verbatim>\<open>src/\<close>; it is modelled from the
  spec and from the calls \<^verbatim>\<open>util.ts\<close> makes. The helper is polymorphic over the
  capability set, so the SDK is a record \<open>'w chain_client\<close> of operations on an
  external state \<open>'w\<close> (the chain and the key store), one field per method
  \<^verbatim>\<open>util.ts\<close> calls. Every call the helper makes goes through \<open>invoke\<close>, which
  runs the capability and appends the call and whether it returned normally to the
  trace of an \<open>'w env\<close>: the trace is the observable sequence of suspension points
  (spec section 5), on which ordering and counting properties are stated. The
  contracts a client may meet (\<open>sign_faithful\<close>, \<open>throws_within\<close>) are the hypotheses of the helper's generic theorems.
\<close>

type_synonym keystore = string

subsection \<open>SDK data\<close>

text \<open>A mint-asset transaction, as \<^verbatim>\<open>sdk.core.createMintAssetTransaction\<close> builds it.\<close>

record mint_asset =
  mint_networkId :: string
  mint_shardId :: nat
  mint_metadata :: string
  mint_supply :: nat
  mint_recipient :: address

text \<open>
  An input of a transfer-asset transaction: the output it spends and its two script
  slots, which signing an input fills.
\<close>

record asset_input =
  prevOut :: "h256 \<times> nat"
  lockScript :: "nat list"
  unlockScript :: "nat list"

record transfer_asset =
  transfer_inputs :: "asset_input list"
  transfer_outputs :: "(address \<times> nat) list"

datatype transaction =
    MintTx mint_asset
  | TransferTx transfer_asset
  | PayTx address nat

text \<open>
  The two trust boundaries a transaction can be signed under (spec section 9): an
  account of the managed key store, or a raw secret.
\<close>

datatype signing_method = KeyStoreAccount address | RawSecret string

record signed_tx =
  unsigned :: transaction
  signed_seq :: nat
  signed_fee :: nat
  signer :: signing_method

record asset =
  asset_tracker :: h256
  asset_index :: nat
  asset_shard :: nat
  asset_owner :: address
  asset_quantity :: nat

subsection \<open>The capability set\<close>

text \<open>
  One field per SDK entry point that \<^verbatim>\<open>util.ts\<close> uses. \<open>chain_getSeq\<close> may answer
  \<^verbatim>\<open>null\<close> (\<open>None\<close>); the sequence handed to \<open>key_signTransaction\<close> is
  whatever the helper resolved, \<^verbatim>\<open>null\<close> included. \<open>tx_sign\<close> and
  \<open>tx_tracker\<close> are the synchronous methods \<^verbatim>\<open>tx.sign\<close> and
  \<^verbatim>\<open>tx.tracker()\<close> of the transaction object.
\<close>

record 'w chain_client =
  key_createAddress :: "keystore \<Rightarrow> 'w \<Rightarrow> (error + address) \<times> 'w"
  chain_getSeq :: "address \<Rightarrow> 'w \<Rightarrow> (error + nat option) \<times> 'w"
  key_signTransaction ::
    "transaction \<Rightarrow> keystore \<Rightarrow> address \<Rightarrow> nat \<Rightarrow> nat option \<Rightarrow> 'w \<Rightarrow> (error + signed_tx) \<times> 'w"
  chain_sendSignedTransaction :: "signed_tx \<Rightarrow> 'w \<Rightarrow> (error + h256) \<times> 'w"
  chain_getTransactionResultsByTracker :: "h256 \<Rightarrow> nat \<Rightarrow> 'w \<Rightarrow> (error + bool list) \<times> 'w"
  chain_getAsset :: "h256 \<Rightarrow> nat \<Rightarrow> nat \<Rightarrow> 'w \<Rightarrow> (error + asset option) \<times> 'w"
  key_signTransactionInput ::
    "transfer_asset \<Rightarrow> nat \<Rightarrow> keystore \<Rightarrow> 'w \<Rightarrow> (error + transfer_asset) \<times> 'w"
  tx_sign :: "transaction \<Rightarrow> string \<Rightarrow> nat \<Rightarrow> nat \<Rightarrow> error + signed_tx"
  tx_tracker :: "transaction \<Rightarrow> h256"

subsection \<open>Calls and the trace\<close>

datatype call =
    is_CreateAddress: CreateAddress
  | is_GetSeq: GetSeq address
  | is_SignTransaction: SignTransaction address nat "nat option"
  | is_SignRaw: SignRaw string nat nat
  | is_Send: SendSignedTransaction signed_tx
  | is_GetResults: GetTransactionResults h256 nat
  | is_GetAsset: GetAsset h256 nat nat
  | is_SignInput: SignTransactionInput nat

text \<open>An event is a call and whether it returned normally (\<open>True\<close>) or threw.\<close>

type_synonym event = "call \<times> bool"

record 'w env =
  trace :: "event list"
  world :: 'w

definition invoke :: "call \<Rightarrow> ('w \<Rightarrow> (error + 'a) \<times> 'w) \<Rightarrow> ('w env, 'a) res" where
  "invoke c f =
     State (\<lambda>s. case f (world s) of
                  (r, w') \<Rightarrow> (r, s\<lparr>trace := trace s @ [(c, \<not> isl r)], world := w'\<rparr>))"

definition lookups :: "event list \<Rightarrow> nat" where
  "lookups es = length (filter (is_GetSeq \<circ> fst) es)"

definition broadcasts :: "event list \<Rightarrow> nat" where
  "broadcasts es = length (filter (is_Send \<circ> fst) es)"

subsection \<open>Contracts of a client\<close>

text \<open>
  \<open>sign_faithful c\<close>: the SDK's \<^verbatim>\<open>tx.sign\<close> (spec section 9, raw-secret
  signing) signs exactly the transaction, secret, fee and sequence it is given.
\<close>

definition sign_faithful :: "'w chain_client \<Rightarrow> bool" where
  "sign_faithful c \<longleftrightarrow>
     (\<forall>tx k f n stx. tx_sign c tx k f n = Inr stx \<longrightarrow>
        stx = \<lparr>unsigned = tx, signed_seq = n, signed_fee = f, signer = RawSecret k\<rparr>)"

text \<open>
  \<open>throws_within c K\<close>: every capability of the client throws only errors in
  \<open>K\<close>, the contract on the client's error channel.
\<close>

definition throws_within :: "'w chain_client \<Rightarrow> error set \<Rightarrow> bool" where
  "throws_within c K \<longleftrightarrow>
     (\<forall>ks w e. fst (key_createAddress c ks w) = Inl e \<longrightarrow> e \<in> K)
   \<and> (\<forall>a w e. fst (chain_getSeq c a w) = Inl e \<longrightarrow> e \<in> K)
   \<and> (\<forall>tx ks a f n w e. fst (key_signTransaction c tx ks a f n w) = Inl e \<longrightarrow> e \<in> K)
   \<and> (\<forall>stx w e. fst (chain_sendSignedTransaction c stx w) = Inl e \<longrightarrow> e \<in> K)
   \<and> (\<forall>h n w e. fst (chain_getTransactionResultsByTracker c h n w) = Inl e \<longrightarrow> e \<in> K)
   \<and> (\<forall>h i sh w e. fst (chain_getAsset c h i sh w) = Inl e \<longrightarrow> e \<in> K)
   \<and> (\<forall>tx i ks w e. fst (key_signTransactionInput c tx i ks w) = Inl e \<longrightarrow> e \<in> K)
   \<and> (\<forall>tx k f n e. tx_sign c tx k f n = Inl e \<longrightarrow> e \<in> K)"

text \<open>
  \<open>rethrows own m\<close>: every call \<open>m\<close> makes returns normally except possibly its last
  one, and \<open>m\<close> throws exactly when that last call threw, or with one of its own errors
  \<open>own\<close> after it returned. So no error of a call is swallowed and no call is made
  after one threw.
\<close>

definition rethrows :: "error set \<Rightarrow> ('w env, 'a) res \<Rightarrow> bool" where
  "rethrows own m \<longleftrightarrow>
     (\<forall>s. let s' = snd (run_state m s); es = drop (length (trace s)) (trace s') in
        take (length (trace s)) (trace s') = trace s \<and> es \<noteq> [] \<and> list_all snd (butlast es)
        \<and> (case fst (run_state m s) of
             Inl e \<Rightarrow> \<not> snd (last es) \<or> (e \<in> own \<and> snd (last es))
           | Inr _ \<Rightarrow> snd (last es)))"

subsection \<open>Evaluation and counting rules\<close>

lemma sign_faithfulD:
  "sign_faithful c \<Longrightarrow> tx_sign c tx k f n = Inr stx \<Longrightarrow>
     stx = \<lparr>unsigned = tx, signed_seq = n, signed_fee = f, signer = RawSecret k\<rparr>"
  unfolding sign_faithful_def by blast


lemma run_invoke [simp, res_simps]:
  "run_state (invoke c f) s =
     (case f (world s) of (r, w') \<Rightarrow> (r, s\<lparr>trace := trace s @ [(c, \<not> isl r)], world := w'\<rparr>))"
  by (simp add: invoke_def)

lemma lookups_simps [simp]:
  "lookups [] = 0"
  "lookups (e # es) = (if is_GetSeq (fst e) then Suc (lookups es) else lookups es)"
  "lookups (es @ fs) = lookups es + lookups fs"
  by (simp_all add: lookups_def)

lemma broadcasts_simps [simp]:
  "broadcasts [] = 0"
  "broadcasts (e # es) = (if is_Send (fst e) then Suc (broadcasts es) else broadcasts es)"
  "broadcasts (es @ fs) = broadcasts es + broadcasts fs"
  by (simp_all add: broadcasts_def)


lemma raises_within_invoke [raises_intros]:
  "(\<And>w e. fst (f w) = Inl e \<Longrightarrow> e \<in> K) \<Longrightarrow> raises_within K (invoke call f)"
  unfolding raises_within_def invoke_def by (auto split: prod.splits) (metis fst_conv)

end
