(* ===== verification/Helper.thy ===== *)
theory Helper
  imports Config Client
begin

text \<open>
  The class \<^verbatim>\<open>Helper\<close> of \<^verbatim>\<open>src/src/util.ts\<close>: its two faucet constants, its state
  (the key-store handle and the options of the SDK it builds), its constructor and its
  five methods, each a computation of the error-state monad over an arbitrary chain
  client \<open>c\<close>. Each method's destructuring defaults are written in the order the
  source evaluates them, an awaited default (\<open>dfltE\<close>) being called only when the
  option is \<^verbatim>\<open>undefined\<close>. Then the behaviour of each method: which SDK calls it
  makes, in which order, and what it returns or throws on each branch; the typing of
  each method's error channel from its client's; and how the configured network
  reaches the transactions.
\<close>

definition faucetSecret :: string where
  "faucetSecret = ''ede1d4ccb4ec9a8bbbae9a13db3f4a7b56ea04189be86ac3a6a439d9a0a1addd''"

definition faucetAddress :: address where
  "faucetAddress = ''tccq9h7vnl68frvqapzv3tujrxtxtwqdnxw6yamrrgd''"

record sdk_options =
  server :: string
  networkId :: string

record helper =
  keyStore :: keystore
  sdk :: sdk_options

text \<open>
  The constructor reads \<^verbatim>\<open>rpc_url\<close>, then \<^verbatim>\<open>network_id\<close>, through
  \<open>getConfig\<close>; the first read that throws aborts the construction. The process-wide
  configuration is an explicit argument.
\<close>

definition new_Helper :: "config \<Rightarrow> keystore \<Rightarrow> error + helper" where
  "new_Helper cfg ks =
     (case getConfig cfg ''rpc_url'' of
        Inl e \<Rightarrow> Inl e
      | Inr rpcUrl \<Rightarrow>
          (case getConfig cfg ''network_id'' of
             Inl e \<Rightarrow> Inl e
           | Inr nid \<Rightarrow> Inr \<lparr>keyStore = ks, sdk = \<lparr>server = rpcUrl, networkId = nid\<rparr>\<rparr>))"

definition createP2PKHAddress :: "'w chain_client \<Rightarrow> helper \<Rightarrow> ('w env, address) res" where
  "createP2PKHAddress c h = invoke CreateAddress (key_createAddress c (keyStore h))"

record send_params =
  sp_account :: address
  sp_fee :: "nat option"
  sp_seq :: "nat option"

text \<open>
  \<^verbatim>\<open>sendTransaction\<close>: fee defaults to 10; an omitted sequence is fetched for the
  account, and whatever the chain answers (\<^verbatim>\<open>null\<close> included) is handed to the
  key store's signer.
\<close>

definition sendTransaction ::
  "'w chain_client \<Rightarrow> helper \<Rightarrow> transaction \<Rightarrow> send_params \<Rightarrow> ('w env, h256) res" where
  "sendTransaction c h tx params =
     (let account = sp_account params; fee = dflt (sp_fee params) 10 in
      bindE (dfltE (map_option Some (sp_seq params))
               (invoke (GetSeq account) (chain_getSeq c account))) (\<lambda>seq.
      bindE (invoke (SignTransaction account fee seq)
               (key_signTransaction c tx (keyStore h) account fee seq)) (\<lambda>signed.
      invoke (SendSignedTransaction signed) (chain_sendSignedTransaction c signed))))"

record asset_options =
  ao_seq :: "nat option"
  ao_fee :: "nat option"
  ao_awaitResult :: "bool option"
  ao_secret :: "string option"

text \<open>\<open>{}\<close>, the options object that \<open>options || {}\<close> falls back to.\<close>

definition no_options :: asset_options where
  "no_options = \<lparr>ao_seq = None, ao_fee = None, ao_awaitResult = None, ao_secret = None\<rparr>"

text \<open>The wait bound of \<^verbatim>\<open>getTransactionResultsByTracker\<close>, in milliseconds.\<close>

definition result_timeout :: nat where
  "result_timeout = 300 * 1000"

text \<open>
  \<^verbatim>\<open>sendAssetTransaction\<close>: an omitted sequence is fetched for the faucet address
  and a \<^verbatim>\<open>null\<close> or zero answer becomes 0 (\<open>|| 0\<close>); fee 10, \<open>awaitResult\<close>
  true and the faucet secret are the other defaults. The transaction is signed with the
  raw secret, broadcast once, and, when results are awaited, the per-output flags are
  fetched under \<open>result_timeout\<close>; otherwise the method returns \<^verbatim>\<open>undefined\<close>
  (\<open>None\<close>).
\<close>

definition sendAssetTransaction ::
  "'w chain_client \<Rightarrow> transaction \<Rightarrow> asset_options option \<Rightarrow> ('w env, bool list option) res" where
  "sendAssetTransaction c tx options =
     (let opts = dflt options no_options in
      bindE (dfltE (ao_seq opts)
               (bindE (invoke (GetSeq faucetAddress) (chain_getSeq c faucetAddress))
                  (\<lambda>r. returnE (dflt r 0)))) (\<lambda>seq.
      let fee = dflt (ao_fee opts) 10;
          awaitResult = dflt (ao_awaitResult opts) True;
          secret = dflt (ao_secret opts) faucetSecret in
      bindE (invoke (SignRaw secret fee seq) (\<lambda>w. (tx_sign c tx secret fee seq, w))) (\<lambda>signed.
      bindE (invoke (SendSignedTransaction signed) (chain_sendSignedTransaction c signed)) (\<lambda>_.
      if awaitResult then
        bindE (invoke (GetTransactionResults (tx_tracker c tx) result_timeout)
                 (chain_getTransactionResultsByTracker c (tx_tracker c tx) result_timeout))
          (\<lambda>flags. returnE (Some flags))
      else returnE None))))"

record mint_params =
  mp_supply :: nat
  mp_recipient :: "address option"
  mp_secret :: "string option"
  mp_seq :: "nat option"
  mp_metadata :: "string option"

text \<open>
  The transaction \<^verbatim>\<open>sdk.core.createMintAssetTransaction\<close> builds for
  \<^verbatim>\<open>mintAsset\<close>: shard 0, the given metadata and supply, the SDK's network.
\<close>

definition mint_tx :: "helper \<Rightarrow> string \<Rightarrow> nat \<Rightarrow> address \<Rightarrow> transaction" where
  "mint_tx h metadata supply recipient =
     MintTx \<lparr>mint_networkId = networkId (sdk h), mint_shardId = 0, mint_metadata = metadata,
             mint_supply = supply, mint_recipient = recipient\<rparr>"

text \<open>
  \<^verbatim>\<open>mintAsset\<close>: a fresh P2PKH address is derived only when no recipient is given;
  the mint is submitted through \<open>sendAssetTransaction\<close> with the caller's secret and
  sequence (its flags are discarded), and the asset at output 0 of shard 0 is looked
  up by the transaction's tracker; a \<^verbatim>\<open>null\<close> answer throws
  \<^verbatim>\<open>Failed to mint asset\<close>.
\<close>

definition mintAsset :: "'w chain_client \<Rightarrow> helper \<Rightarrow> mint_params \<Rightarrow> ('w env, asset) res" where
  "mintAsset c h params =
     bindE (dfltE (mp_recipient params) (createP2PKHAddress c h)) (\<lambda>recipient.
     let metadata = dflt (mp_metadata params) '''';
         tx = mint_tx h metadata (mp_supply params) recipient in
     bindE (sendAssetTransaction c tx
              (Some \<lparr>ao_seq = mp_seq params, ao_fee = None, ao_awaitResult = None,
                     ao_secret = mp_secret params\<rparr>)) (\<lambda>_.
     bindE (invoke (GetAsset (tx_tracker c tx) 0 0) (chain_getAsset c (tx_tracker c tx) 0 0))
       (\<lambda>asset. case asset of None \<Rightarrow> throwE FailedToMint | Some a \<Rightarrow> returnE a)))"

text \<open>
  \<^verbatim>\<open>signTransactionInput\<close> signs one input of a transfer transaction in place; the
  model returns the transaction object as the SDK left it.
\<close>

definition signTransactionInput ::
  "'w chain_client \<Rightarrow> helper \<Rightarrow> transfer_asset \<Rightarrow> nat \<Rightarrow> ('w env, transfer_asset) res" where
  "signTransactionInput c h tx index =
     invoke (SignTransactionInput index) (key_signTransactionInput c tx index (keyStore h))"

declare createP2PKHAddress_def [helper_defs] sendTransaction_def [helper_defs]
  sendAssetTransaction_def [helper_defs] mintAsset_def [helper_defs]
  signTransactionInput_def [helper_defs]

subsection \<open>Construction\<close>

text \<open>
  C8: the constructor succeeds exactly when both settings are configured, that is, are
  present and not \<^verbatim>\<open>null\<close>.
\<close>

theorem new_Helper_succeeds:
  "(\<exists>h. new_Helper cfg ks = Inr h) \<longleftrightarrow> haveConfig cfg ''rpc_url'' \<and> haveConfig cfg ''network_id''"
  by (auto simp: new_Helper_def haveConfig_cases getConfig_cases split: sum.splits option.splits)

text \<open>
  C9: a failed construction fails deterministically with the error of the first setting
  that is missing, \<^verbatim>\<open>rpc_url\<close> being read first.
\<close>

theorem new_Helper_error:
  "new_Helper cfg ks = Inl e \<longleftrightarrow>
     getConfig cfg ''rpc_url'' = Inl e
     \<or> (haveConfig cfg ''rpc_url'' \<and> getConfig cfg ''network_id'' = Inl e)"
  by (auto simp: new_Helper_def haveConfig_cases getConfig_cases split: sum.splits option.splits)

text \<open>
  C18: a constructed helper keeps the key store it was given and builds its SDK on the
  configured endpoint and network.
\<close>

theorem new_Helper_fields:
  assumes "new_Helper cfg ks = Inr h"
  shows "keyStore h = ks \<and> cfg ''rpc_url'' = Some (Some (server (sdk h)))
         \<and> cfg ''network_id'' = Some (Some (networkId (sdk h)))"
  using assms by (auto simp: new_Helper_def getConfig_cases split: option.splits sum.splits)

subsection \<open>Sequence lookups and broadcasts\<close>

text \<open>
  C3: \<^verbatim>\<open>sendTransaction\<close> with an explicit sequence never looks one up; with the
  sequence omitted it looks it up exactly once, for the sending account, before any
  other call.
\<close>

theorem sendTransaction_lookups:
  assumes "run_state (sendTransaction c h tx p) s = (r, s')"
  shows "\<exists>es. trace s' = trace s @ es \<and> lookups es = (if sp_seq p = None then 1 else 0)
           \<and> (sp_seq p = None \<longrightarrow> take 1 (map fst es) = [GetSeq (sp_account p)])"
  using assms by (auto simp: sendTransaction_def Let_def split: prod.splits sum.splits option.splits)

text \<open>
  C2: \<^verbatim>\<open>sendAssetTransaction\<close> with \<open>awaitResult: false\<close> that returns, returns
  \<^verbatim>\<open>undefined\<close>, having broadcast the signed transaction exactly once and never
  queried its results.
\<close>

theorem sendAssetTransaction_no_await:
  assumes "run_state (sendAssetTransaction c tx (Some opts)) s = (Inr v, s')"
    and "ao_awaitResult opts = Some False"
  shows "v = None \<and> (\<exists>es. trace s' = trace s @ es \<and> broadcasts es = 1
           \<and> \<not> list_ex (is_GetResults \<circ> fst) es)"
  using assms
  by (auto simp: sendAssetTransaction_def Let_def dfltE_def
      split: prod.splits sum.splits option.splits if_splits)

text \<open>
  C12: with the sequence omitted, \<^verbatim>\<open>sendAssetTransaction\<close> first looks up the
  sequence of the faucet address, whatever secret it is given, and signs with that
  secret (the faucet's by default), fee 10 by default and the sequence the chain
  answered, 0 when it answered \<^verbatim>\<open>null\<close>.
\<close>

theorem sendAssetTransaction_seq_lookup:
  assumes "run_state (sendAssetTransaction c tx (Some opts)) s = (r, s')"
    and "ao_seq opts = None" and "chain_getSeq c faucetAddress (world s) = (Inr q, w)"
  shows "\<exists>es. trace s' = trace s @ es \<and>
           take 2 (map fst es) =
             [GetSeq faucetAddress,
              SignRaw (dflt (ao_secret opts) faucetSecret) (dflt (ao_fee opts) 10) (dflt q 0)]"
  using assms
  by (auto simp: sendAssetTransaction_def Let_def split: prod.splits sum.splits option.splits if_splits)

text \<open>
  C19: \<^verbatim>\<open>mintAsset\<close> broadcasts at most one transaction and never retries
  (spec section 7).
\<close>

theorem mintAsset_single_broadcast:
  assumes "run_state (mintAsset c h p) s = (r, s')"
  shows "\<exists>es. trace s' = trace s @ es \<and> broadcasts es \<le> 1"
  using assms
  by (auto simp: mintAsset_def createP2PKHAddress_def sendAssetTransaction_def Let_def dfltE_def
      split: prod.splits sum.splits option.splits if_splits)

text \<open>
  C14: the asset \<^verbatim>\<open>mintAsset\<close> returns is the client's answer to its last call, the
  lookup of output 0 in shard 0 under the tracker of the mint transaction it built,
  made after the result query for the same tracker returned. The recipient of that mint
  is the caller's, in which case no address is derived, or else the address the key
  store derived in the method's first call.
\<close>

theorem mintAsset_returns_lookup:
  assumes "run_state (mintAsset c h p) s = (Inr a, s')"
  shows "\<exists>es rcpt w. trace s' = trace s @ es
     \<and> chain_getAsset c (tx_tracker c (mint_tx h (dflt (mp_metadata p) '''') (mp_supply p) rcpt)) 0 0 w
         = (Inr (Some a), world s')
     \<and> last es = (GetAsset (tx_tracker c (mint_tx h (dflt (mp_metadata p) '''') (mp_supply p) rcpt)) 0 0, True)
     \<and> (GetTransactionResults (tx_tracker c (mint_tx h (dflt (mp_metadata p) '''') (mp_supply p) rcpt))
          result_timeout, True) \<in> set es
     \<and> (case mp_recipient p of
          Some r \<Rightarrow> rcpt = r \<and> CreateAddress \<notin> fst ` set es
        | None \<Rightarrow> take 1 es = [(CreateAddress, True)]
                  \<and> (\<exists>w0. key_createAddress c (keyStore h) (world s) = (Inr rcpt, w0)))"
  using assms
  by (auto simp: mintAsset_def createP2PKHAddress_def sendAssetTransaction_def Let_def dfltE_def
      split: prod.splits sum.splits option.splits if_splits)

text \<open>
  C22: on a client whose \<^verbatim>\<open>tx.sign\<close> signs what it is given, the transaction
  \<^verbatim>\<open>mintAsset\<close> broadcasts is the mint it built: network of the helper, shard 0,
  the caller's metadata (empty by default), supply and recipient, fee 10, signed with
  the caller's secret (the faucet's by default) and, when given, the caller's sequence.
\<close>

theorem mintAsset_broadcast_contents:
  assumes "sign_faithful c" and "run_state (mintAsset c h p) s = (r, s')"
    and "trace s' = trace s @ es" and "(SendSignedTransaction stx, b) \<in> set es"
  shows "\<exists>rcpt n. stx = \<lparr>unsigned = mint_tx h (dflt (mp_metadata p) '''') (mp_supply p) rcpt,
                          signed_seq = n, signed_fee = 10,
                          signer = RawSecret (dflt (mp_secret p) faucetSecret)\<rparr>
           \<and> (\<forall>a. mp_recipient p = Some a \<longrightarrow> rcpt = a) \<and> (\<forall>m. mp_seq p = Some m \<longrightarrow> n = m)"
  using assms(2-)
  by (auto simp: mint_tx_def mintAsset_def createP2PKHAddress_def sendAssetTransaction_def Let_def dfltE_def
      dest!: sign_faithfulD [OF assms(1)] split: prod.splits sum.splits option.splits if_splits)

subsection \<open>Configuration reaching the transactions\<close>

lemma new_Helper_network:
  "new_Helper cfg ks = Inr h \<Longrightarrow> cfg ''network_id'' = Some (Some (networkId (sdk h)))"
  by (auto simp: new_Helper_def getConfig_cases split: option.splits sum.splits)

lemma mintAsset_broadcast_unsigned:
  assumes "sign_faithful c" and "run_state (mintAsset c h p) s = (r, s')"
    and "trace s' = trace s @ es" and "(SendSignedTransaction stx, b) \<in> set es"
  shows "\<exists>rcpt. unsigned stx = mint_tx h (dflt (mp_metadata p) '''') (mp_supply p) rcpt"
  using assms(2-)
  by (auto simp: mint_tx_def mintAsset_def createP2PKHAddress_def sendAssetTransaction_def Let_def
      dfltE_def dest!: sign_faithfulD [OF assms(1)] split: prod.splits sum.splits option.splits if_splits)

subsection \<open>Typing of the error channel\<close>

text \<open>
  The helper adds no error of its own to those of the client, except the failed-mint
  error of \<^verbatim>\<open>mintAsset\<close>: every other error is a client's, propagated unchanged.
\<close>

lemma raises_within_createP2PKHAddress:
  "throws_within c K \<Longrightarrow> raises_within K (createP2PKHAddress c h)"
  unfolding createP2PKHAddress_def by (auto simp: throws_within_def intro!: raises_intros)

lemma raises_within_sendTransaction:
  "throws_within c K \<Longrightarrow> raises_within K (sendTransaction c h tx p)"
  unfolding sendTransaction_def Let_def by (auto simp: throws_within_def intro!: raises_intros)

lemma raises_within_sendAssetTransaction:
  "throws_within c K \<Longrightarrow> raises_within K (sendAssetTransaction c tx opts)"
  unfolding sendAssetTransaction_def Let_def
  by (auto simp: throws_within_def intro!: raises_intros split: if_split)

lemma raises_within_signTransactionInput:
  "throws_within c K \<Longrightarrow> raises_within K (signTransactionInput c h tx i)"
  unfolding signTransactionInput_def by (auto simp: throws_within_def intro!: raises_intros)

lemma raises_within_mintAsset:
  assumes "throws_within c K"
  shows "raises_within (insert FailedToMint K) (mintAsset c h p)"
proof -
  have sub: "K \<subseteq> insert FailedToMint K" by blast
  have "raises_within (insert FailedToMint K) (createP2PKHAddress c h)"
    and "raises_within (insert FailedToMint K) (sendAssetTransaction c tx opts)" for tx opts
    using raises_within_mono [OF _ sub] raises_within_createP2PKHAddress raises_within_sendAssetTransaction
      assms by blast+
  with assms show ?thesis
    unfolding mintAsset_def Let_def
    by (auto simp: throws_within_def intro!: raises_intros split: option.split)
qed

lemma new_Helper_error_kind: "new_Helper cfg ks = Inl e \<Longrightarrow> error_kind e = Configuration"
  by (auto simp: new_Helper_def getConfig_cases split: sum.splits option.splits)


end
