(* ===== verification/Submission.thy ===== *)
theory Submission
  imports Helper
begin

text \<open>
  The submission protocol (spec section 4.1): a transaction is built, signed, broadcast
  and then, when the caller awaits results, confirmed or not confirmed in time. Signing
  goes through either trust boundary of spec section 9: the key store
  (\<open>SignTransaction\<close>, used by \<open>sendTransaction\<close>) or a raw secret
  (\<open>SignRaw\<close>, used by \<open>sendAssetTransaction\<close>). Its abstract specification is an \<^theory_text>\<open>inductive\<close> step relation
  over the events of the trace, \<open>sub_step aw\<close>, for a caller that awaits results
  (\<open>aw\<close>) or not; \<open>sub_run\<close> is its reflexive-transitive closure over a list of
  events. A failed sequence lookup or signature ends the protocol before broadcast
  (\<open>Aborted\<close>), a failed broadcast is \<open>Rejected\<close>, and a failed result query is
  \<open>TimedOut\<close>, which the helper cannot tell apart from a rejection the chain reports
  there (spec section 7). Proved here: both \<open>sendAssetTransaction\<close> and
  \<open>sendTransaction\<close> refine this machine, and therefore, since no run of the machine
  broadcasts twice, neither method does.
\<close>

datatype phase = Built | Sequenced | Signed | Broadcast | Confirmed | TimedOut | Rejected | Aborted

inductive sub_step :: "bool \<Rightarrow> phase \<Rightarrow> event \<Rightarrow> phase \<Rightarrow> bool" for aw :: bool where
  lookup: "sub_step aw Built (GetSeq a, True) Sequenced"
| lookup_failed: "sub_step aw Built (GetSeq a, False) Aborted"
| sign: "p = Built \<or> p = Sequenced \<Longrightarrow> is_SignRaw c \<or> is_SignTransaction c \<Longrightarrow>
    sub_step aw p (c, True) Signed"
| sign_failed: "p = Built \<or> p = Sequenced \<Longrightarrow> is_SignRaw c \<or> is_SignTransaction c \<Longrightarrow>
    sub_step aw p (c, False) Aborted"
| broadcast: "sub_step aw Signed (SendSignedTransaction t, True) Broadcast"
| rejected: "sub_step aw Signed (SendSignedTransaction t, False) Rejected"
| confirmed: "aw \<Longrightarrow> sub_step aw Broadcast (GetTransactionResults h n, True) Confirmed"
| timed_out: "aw \<Longrightarrow> sub_step aw Broadcast (GetTransactionResults h n, False) TimedOut"

inductive sub_run :: "bool \<Rightarrow> phase \<Rightarrow> event list \<Rightarrow> phase \<Rightarrow> bool" for aw :: bool where
  stop: "sub_run aw p [] p"
| step: "sub_step aw p e q \<Longrightarrow> sub_run aw q es r \<Longrightarrow> sub_run aw p (e # es) r"

code_pred sub_step .
code_pred sub_run .

inductive_simps sub_run_Nil [simp]: "sub_run aw p [] q"
inductive_simps sub_run_Cons [simp]: "sub_run aw p (e # es) q"
inductive_simps sub_step_simps [simp]: "sub_step aw p (c, b) q"
inductive_cases sub_stepE: "sub_step aw p e q"

text \<open>
  The phases a call may end in: every phase after the broadcast, and the broadcast
  itself only for a caller that does not await results.
\<close>

fun final :: "bool \<Rightarrow> phase \<Rightarrow> bool" where
  "final aw Built = False"
| "final aw Sequenced = False"
| "final aw Signed = False"
| "final aw Broadcast = (\<not> aw)"
| "final aw _ = True"

text \<open>What the caller sees in each final phase.\<close>

fun phase_result :: "phase \<Rightarrow> error + bool list option \<Rightarrow> bool" where
  "phase_result Confirmed r = (case r of Inr (Some _) \<Rightarrow> True | _ \<Rightarrow> False)"
| "phase_result Broadcast r = (r = Inr None)"
| "phase_result _ r = isl r"

text \<open>The number of broadcasts a phase has behind it.\<close>

fun sent :: "phase \<Rightarrow> nat" where
  "sent Broadcast = 1"
| "sent Confirmed = 1"
| "sent TimedOut = 1"
| "sent Rejected = 1"
| "sent _ = 0"

subsection \<open>The machine broadcasts at most once\<close>

lemma sub_step_sent: "sub_step aw p e q \<Longrightarrow> sent q = sent p + broadcasts [e]"
  by (induction rule: sub_step.induct) auto

lemma sub_run_sent: "sub_run aw p es q \<Longrightarrow> sent q = sent p + broadcasts es"
proof (induction rule: sub_run.induct)
  case (stop p)
  show ?case by simp
next
  case (step p e q es r)
  from step.hyps(1) have "sent q = sent p + broadcasts [e]" by (rule sub_step_sent)
  with step.IH show ?case by simp
qed

lemma sent_le_1: "sent p \<le> 1"
  by (cases p) simp_all

subsection \<open>Refinement\<close>

text \<open>
  C1: every execution of \<open>sendAssetTransaction\<close>, on any chain client, appends to the
  trace a run of the submission machine for the caller's \<open>awaitResult\<close>, from
  \<open>Built\<close> to a final phase, and the value it returns or throws is the one that
  phase promises.
\<close>

theorem sendAssetTransaction_refines:
  assumes "run_state (sendAssetTransaction c tx opts) s = (r, s')"
  shows "\<exists>es p. trace s' = trace s @ es
           \<and> sub_run (dflt (ao_awaitResult (dflt opts no_options)) True) Built es p
           \<and> final (dflt (ao_awaitResult (dflt opts no_options)) True) p \<and> phase_result p r"
  using assms
  by (auto simp: sendAssetTransaction_def Let_def dfltE_def
      split: prod.splits sum.splits option.splits if_splits)

text \<open>
  C21: every execution of \<^verbatim>\<open>sendTransaction\<close>, on any chain client, appends a run
  of the submission machine for a caller that does not await results, signing through
  the key store; it ends in a final phase, and the method returns exactly when that
  phase is \<open>Broadcast\<close>.
\<close>

theorem sendTransaction_refines:
  assumes "run_state (sendTransaction c h tx p) s = (r, s')"
  shows "\<exists>es q. trace s' = trace s @ es \<and> sub_run False Built es q \<and> final False q
           \<and> (q = Broadcast \<longleftrightarrow> \<not> isl r)"
  using assms
  by (cases "isl r")
     (auto simp: sendTransaction_def Let_def dfltE_def split: prod.splits sum.splits option.splits)

lemma phase_result_sent: "final aw p \<Longrightarrow> phase_result p r \<Longrightarrow> \<not> isl r \<Longrightarrow> sent p = 1"
  by (cases p) (auto split: sum.splits option.splits)

text \<open>
  C11: neither submission method ever broadcasts a transaction twice, and each has
  broadcast it exactly once when it returns normally: both refine the submission
  machine, which has no transition back to \<open>Signed\<close> (no automatic resubmission,
  spec section 7).
\<close>

theorem submissions_broadcast_once:
  assumes "run_state (sendAssetTransaction c tx opts) s = (r, s')"
    and "run_state (sendTransaction c h tx' p) s = (r', s'')"
  shows "(\<exists>es. trace s' = trace s @ es \<and> broadcasts es \<le> 1 \<and> (\<not> isl r \<longrightarrow> broadcasts es = 1))
       \<and> (\<exists>es. trace s'' = trace s @ es \<and> broadcasts es \<le> 1 \<and> (\<not> isl r' \<longrightarrow> broadcasts es = 1))"
proof -
  let ?aw = "dflt (ao_awaitResult (dflt opts no_options)) True"
  obtain es q where es: "trace s' = trace s @ es" and run: "sub_run ?aw Built es q"
    and fin: "final ?aw q" and res: "phase_result q r"
    using assms(1)
    by (auto simp: sendAssetTransaction_def Let_def dfltE_def
        split: prod.splits sum.splits option.splits if_splits)
  from run have "sent q = broadcasts es" using sub_run_sent by fastforce
  with sent_le_1 [of q] phase_result_sent [OF fin res]
  have A: "broadcasts es \<le> 1 \<and> (\<not> isl r \<longrightarrow> broadcasts es = 1)" by auto
  obtain es' q' where es': "trace s'' = trace s @ es'" and run': "sub_run False Built es' q'"
    and res': "q' = Broadcast \<longleftrightarrow> \<not> isl r'"
    using assms(2)
    by (cases "isl r'") (auto simp: sendTransaction_def Let_def dfltE_def split: prod.splits sum.splits option.splits)
  from run' have "sent q' = broadcasts es'" using sub_run_sent by fastforce
  with sent_le_1 [of q'] res' have B: "broadcasts es' \<le> 1 \<and> (\<not> isl r' \<longrightarrow> broadcasts es' = 1)" by auto
  from es A es' B show ?thesis by blast
qed

end
