(* ===== verification/Stub.thy ===== *)
theory Stub
  imports Client
begin

text \<open>
  A stub chain client, modelled from the spec (sections 6 and 8): an implementation of
  the capability set of \<^theory_text>\<open>Client\<close> on an explicit chain state, against which the
  helper's end-to-end behaviour is stated. Broadcast transactions wait in
  \<open>pending\<close> until their settlement time (\<open>latency\<close> after the broadcast, or never
  when it is \<open>None\<close>); settling a transaction records its result flag under its
  tracker and, for a successful mint, the minted asset at output 0 of its shard. The
  result query is the SDK's polling loop: query, and while nothing is recorded and the
  timeout has not passed, wait one second and query again; \<open>poll_fuel\<close> is the same
  loop with a budget of rounds. Signing an input signs the tracker of the transaction
  with its scripts emptied, which the chain's check \<open>stub_verifyInput\<close> recomputes.
  Proved here: the loop's bounds and termination within its round budget, what settlement
  and polling leave unchanged, and the contracts of the client interface the stub
  meets.
\<close>

record chain =
  clock :: nat
  seqs :: "address \<rightharpoonup> nat"
  managed :: "address list"
  fresh :: "address list"
  pending :: "(signed_tx \<times> nat option) list"
  results :: "h256 \<rightharpoonup> bool list"
  assets :: "h256 \<times> nat \<times> nat \<rightharpoonup> asset"
  latency :: "nat option"
  accepts :: "signed_tx \<Rightarrow> bool"
  executes :: "transaction \<Rightarrow> bool"

definition poll_interval :: nat where
  "poll_interval = 1000"

subsection \<open>Key store\<close>

definition stub_createAddress :: "keystore \<Rightarrow> chain \<Rightarrow> (error + address) \<times> chain" where
  "stub_createAddress ks w =
     (case fresh w of
        [] \<Rightarrow> (Inl KeyStoreFailure, w)
      | a # as \<Rightarrow> (Inr a, w\<lparr>fresh := as, managed := a # managed w\<rparr>))"

definition stub_signTransaction ::
  "transaction \<Rightarrow> keystore \<Rightarrow> address \<Rightarrow> nat \<Rightarrow> nat option \<Rightarrow> chain \<Rightarrow> (error + signed_tx) \<times> chain" where
  "stub_signTransaction tx ks account fee seq w =
     (if account \<notin> set (managed w) then (Inl (KeyNotFound account), w)
      else case seq of
        None \<Rightarrow> (Inl InvalidSeq, w)
      | Some n \<Rightarrow> (Inr \<lparr>unsigned = tx, signed_seq = n, signed_fee = fee,
                         signer = KeyStoreAccount account\<rparr>, w))"

definition stub_sign :: "transaction \<Rightarrow> string \<Rightarrow> nat \<Rightarrow> nat \<Rightarrow> error + signed_tx" where
  "stub_sign tx secret fee seq =
     Inr \<lparr>unsigned = tx, signed_seq = seq, signed_fee = fee, signer = RawSecret secret\<rparr>"

text \<open>
  Signing input \<open>i\<close> of a transfer fills its two script slots: a P2PKH lock script
  and a signature over the index and the tracker of the transaction with every script
  slot emptied (a CodeChain tracker does not cover the scripts, so signing one input
  leaves the others' signatures valid); an index beyond the inputs throws. The chain
  checks an input with \<open>stub_verifyInput\<close>.
\<close>

definition p2pkh_lock :: "nat list" where
  "p2pkh_lock = [118, 169]"

definition strip_scripts :: "transfer_asset \<Rightarrow> transfer_asset" where
  "strip_scripts tx =
     tx\<lparr>transfer_inputs := map (\<lambda>x. x\<lparr>lockScript := [], unlockScript := []\<rparr>) (transfer_inputs tx)\<rparr>"

definition stub_signTransactionInput ::
  "(transaction \<Rightarrow> h256) \<Rightarrow> transfer_asset \<Rightarrow> nat \<Rightarrow> keystore \<Rightarrow> chain
     \<Rightarrow> (error + transfer_asset) \<times> chain" where
  "stub_signTransactionInput trk tx i ks w =
     (if i < length (transfer_inputs tx) then
        (Inr (tx\<lparr>transfer_inputs := (transfer_inputs tx)[i :=
                   (transfer_inputs tx ! i)\<lparr>lockScript := p2pkh_lock,
                      unlockScript := [trk (TransferTx (strip_scripts tx)), i]\<rparr>]\<rparr>), w)
      else (Inl (InvalidIndex i), w))"

definition stub_verifyInput :: "(transaction \<Rightarrow> h256) \<Rightarrow> transfer_asset \<Rightarrow> nat \<Rightarrow> bool" where
  "stub_verifyInput trk tx i \<longleftrightarrow>
     i < length (transfer_inputs tx) \<and> lockScript (transfer_inputs tx ! i) = p2pkh_lock
     \<and> unlockScript (transfer_inputs tx ! i) = [trk (TransferTx (strip_scripts tx)), i]"

subsection \<open>Settlement\<close>

definition due :: "chain \<Rightarrow> signed_tx \<times> nat option \<Rightarrow> bool" where
  "due w x = (case snd x of None \<Rightarrow> False | Some t \<Rightarrow> t \<le> clock w)"

definition mint_output :: "h256 \<Rightarrow> mint_asset \<Rightarrow> asset" where
  "mint_output h m =
     \<lparr>asset_tracker = h, asset_index = 0, asset_shard = mint_shardId m,
      asset_owner = mint_recipient m, asset_quantity = mint_supply m\<rparr>"

definition apply_tx :: "(transaction \<Rightarrow> h256) \<Rightarrow> signed_tx \<Rightarrow> chain \<Rightarrow> chain" where
  "apply_tx trk stx w =
     (let tx = unsigned stx; h = trk tx; ok = executes w tx in
      w\<lparr>results := (results w)(h \<mapsto> [ok]),
        assets := (case tx of
                     MintTx m \<Rightarrow>
                       if ok then (assets w)((h, 0, mint_shardId m) \<mapsto> mint_output h m)
                       else assets w
                   | _ \<Rightarrow> assets w)\<rparr>)"

definition settle :: "(transaction \<Rightarrow> h256) \<Rightarrow> chain \<Rightarrow> chain" where
  "settle trk w =
     fold (apply_tx trk) (map fst (filter (due w) (pending w)))
       (w\<lparr>pending := filter (Not \<circ> due w) (pending w)\<rparr>)"

subsection \<open>Chain RPC\<close>

definition stub_getSeq :: "address \<Rightarrow> chain \<Rightarrow> (error + nat option) \<times> chain" where
  "stub_getSeq a w = (Inr (seqs w a), w)"

definition stub_send ::
  "(transaction \<Rightarrow> h256) \<Rightarrow> signed_tx \<Rightarrow> chain \<Rightarrow> (error + h256) \<times> chain" where
  "stub_send trk stx w =
     (if \<not> accepts w stx then (Inl (RpcError ''rejected''), w)
      else (Inr (trk (unsigned stx)),
            settle trk (w\<lparr>pending := pending w @ [(stx, map_option ((+) (clock w)) (latency w))]\<rparr>)))"

text \<open>
  The SDK's \<^verbatim>\<open>getTransactionResultsByTracker\<close> with a timeout: the loop ends because
  the clock advances by \<open>poll_interval\<close> on each round and the loop stops once it
  reaches \<open>start + timeout\<close>.
\<close>

function poll :: "(transaction \<Rightarrow> h256) \<Rightarrow> h256 \<Rightarrow> nat \<Rightarrow> nat \<Rightarrow> chain \<Rightarrow> (error + bool list) \<times> chain" where
  "poll trk h timeout start w =
     (if dflt (results w h) [] \<noteq> [] then (Inr (dflt (results w h) []), w)
      else if start + timeout \<le> clock w then (Inl (ResultTimeout timeout), w)
      else poll trk h timeout start (settle trk (w\<lparr>clock := clock w + poll_interval\<rparr>)))"
  by pat_completeness auto
termination
proof (relation "measure (\<lambda>(trk, h, timeout, start, w). start + timeout - clock w)")
  show "wf (measure (\<lambda>(trk, h, timeout, start, w). start + timeout - clock w))" by simp
next
  have fold_clock: "clock (fold (apply_tx trk) xs w) = clock w" for trk xs w
    by (induction xs arbitrary: w) (simp_all add: apply_tx_def Let_def)
  fix trk h timeout start and w :: chain
  assume "\<not> start + timeout \<le> clock w"
  then show "((trk, h, timeout, start, settle trk (w\<lparr>clock := clock w + poll_interval\<rparr>)),
              (trk, h, timeout, start, w))
             \<in> measure (\<lambda>(trk, h, timeout, start, w). start + timeout - clock w)"
    by (simp add: settle_def fold_clock poll_interval_def)
qed

text \<open>
  The same loop with an explicit budget of rounds: \<open>None\<close> when the budget runs out
  before the loop has ended.
\<close>

fun poll_fuel ::
  "nat \<Rightarrow> (transaction \<Rightarrow> h256) \<Rightarrow> h256 \<Rightarrow> nat \<Rightarrow> nat \<Rightarrow> chain \<Rightarrow> ((error + bool list) \<times> chain) option" where
  "poll_fuel 0 trk h timeout start w = None"
| "poll_fuel (Suc n) trk h timeout start w =
     (if dflt (results w h) [] \<noteq> [] then Some (Inr (dflt (results w h) []), w)
      else if start + timeout \<le> clock w then Some (Inl (ResultTimeout timeout), w)
      else poll_fuel n trk h timeout start (settle trk (w\<lparr>clock := clock w + poll_interval\<rparr>)))"

definition stub_getResults :: "(transaction \<Rightarrow> h256) \<Rightarrow> h256 \<Rightarrow> nat \<Rightarrow> chain \<Rightarrow> (error + bool list) \<times> chain" where
  "stub_getResults trk h timeout w = poll trk h timeout (clock w) w"

definition stub_getAsset :: "h256 \<Rightarrow> nat \<Rightarrow> nat \<Rightarrow> chain \<Rightarrow> (error + asset option) \<times> chain" where
  "stub_getAsset h index shard w = (Inr (assets w (h, index, shard)), w)"

definition stub_client :: "(transaction \<Rightarrow> h256) \<Rightarrow> chain chain_client" where
  "stub_client trk =
     \<lparr>key_createAddress = stub_createAddress,
      chain_getSeq = stub_getSeq,
      key_signTransaction = stub_signTransaction,
      chain_sendSignedTransaction = stub_send trk,
      chain_getTransactionResultsByTracker = stub_getResults trk,
      chain_getAsset = stub_getAsset,
      key_signTransactionInput = stub_signTransactionInput trk,
      tx_sign = stub_sign,
      tx_tracker = trk\<rparr>"

text \<open>
  The stub with a budget of polling rounds on the client side: the result query gives
  up with an error once \<open>n\<close> rounds have passed without an answer or the deadline.
\<close>

definition stub_client_rounds :: "nat \<Rightarrow> (transaction \<Rightarrow> h256) \<Rightarrow> chain chain_client" where
  "stub_client_rounds n trk =
     (stub_client trk)\<lparr>chain_getTransactionResultsByTracker := \<lambda>h timeout w.
        (case poll_fuel n trk h timeout (clock w) w of
           Some r \<Rightarrow> r
         | None \<Rightarrow> (Inl (RpcError ''polling rounds exhausted''), w))\<rparr>"

text \<open>
  The key store hands out each address once: the fresh addresses and the managed
  accounts are all distinct.
\<close>

definition keys_fresh :: "chain \<Rightarrow> bool" where
  "keys_fresh w \<longleftrightarrow> distinct (fresh w @ managed w)"

declare poll.simps [simp del]

subsection \<open>Settlement and the clock\<close>

lemma clock_apply_tx [simp]: "clock (apply_tx trk x w) = clock w"
  by (simp add: apply_tx_def Let_def)

lemma pending_apply_tx [simp]: "pending (apply_tx trk x w) = pending w"
  by (simp add: apply_tx_def Let_def)

lemma executes_apply_tx [simp]: "executes (apply_tx trk stx w) = executes w"
  by (simp add: apply_tx_def Let_def)

lemma results_apply_tx [simp]:
  "results (apply_tx trk stx w) (trk (unsigned stx)) = Some [executes w (unsigned stx)]"
  by (simp add: apply_tx_def Let_def)

lemma clock_fold_apply_tx [simp]: "clock (fold (apply_tx trk) xs w) = clock w"
  by (induction xs arbitrary: w) simp_all

lemma pending_fold_apply_tx [simp]: "pending (fold (apply_tx trk) xs w) = pending w"
  by (induction xs arbitrary: w) simp_all

lemma clock_settle [simp]: "clock (settle trk w) = clock w"
  by (simp add: settle_def)

lemma settle_idle:
  "\<forall>x\<in>set (pending w). \<not> due w x \<Longrightarrow> settle trk w = w"
  by (simp add: settle_def filter_id_conv comp_def)

lemma settle_never_due: "\<forall>x\<in>set (pending w). snd x = None \<Longrightarrow> settle trk w = w"
  by (rule settle_idle) (simp add: due_def)

lemma clock_stub_send: "stub_send trk stx w = (r, w') \<Longrightarrow> clock w' = clock w"
  by (auto simp: stub_send_def split: if_splits)

lemma pending_Nil_update: "pending w = [] \<Longrightarrow> w\<lparr>pending := []\<rparr> = w"
  by (cases w) simp

subsection \<open>The polling loop\<close>

lemma poll_found:
  "dflt (results w h) [] \<noteq> [] \<Longrightarrow> poll trk h timeout start w = (Inr (dflt (results w h) []), w)"
  by (simp add: poll.simps [of trk h timeout start w])

text \<open>
  The result query never waits past its bound by more than one polling interval, never
  moves the clock back, returns at once when called after the deadline, and its only
  error is the timeout, raised once the deadline has passed.
\<close>

lemma poll_bounds:
  assumes "poll trk h timeout start w = (r, w')"
  shows "clock w \<le> clock w'
     \<and> (start + timeout \<le> clock w \<longrightarrow> w' = w)
     \<and> (clock w < start + timeout \<longrightarrow> clock w' < start + timeout + poll_interval)
     \<and> (isl r \<longrightarrow> r = Inl (ResultTimeout timeout) \<and> start + timeout \<le> clock w')"
  using assms
proof (induction trk h timeout start w arbitrary: r w' rule: poll.induct)
  case (1 trk h timeout start w)
  show ?case
  proof (cases "dflt (results w h) [] \<noteq> [] \<or> start + timeout \<le> clock w")
    case True
    with "1.prems" show ?thesis
      by (auto simp: poll.simps [of trk h timeout start w] split: if_splits)
  next
    case False
    let ?w1 = "settle trk (w\<lparr>clock := clock w + poll_interval\<rparr>)"
    from False "1.prems" have run: "poll trk h timeout start ?w1 = (r, w')"
      by (simp add: poll.simps [of trk h timeout start w])
    from False have "\<not> dflt (results w h) [] \<noteq> []" and "\<not> start + timeout \<le> clock w" by auto
    from "1.IH" [OF this run] False show ?thesis by (auto simp: poll_interval_def)
  qed
qed

lemma stub_getResults_clock:
  assumes "stub_getResults trk h tm w = (r, w')"
  shows "clock w \<le> clock w' \<and> clock w' < clock w + tm + poll_interval"
  using poll_bounds [of trk h tm "clock w" w r w'] assms
  by (cases "tm = 0") (auto simp: stub_getResults_def poll_interval_def)

lemma poll_never_settles:
  assumes "\<forall>x\<in>set (pending w). snd x = None" and "dflt (results w h) [] = []"
  shows "fst (poll trk h timeout start w) = Inl (ResultTimeout timeout)"
  using assms
proof (induction trk h timeout start w rule: poll.induct)
  case (1 trk h timeout start w)
  let ?w1 = "settle trk (w\<lparr>clock := clock w + poll_interval\<rparr>)"
  have idle: "?w1 = w\<lparr>clock := clock w + poll_interval\<rparr>"
    using "1.prems"(1) by (intro settle_idle) (simp add: due_def)
  show ?case
  proof (cases "start + timeout \<le> clock w")
    case True
    with "1.prems" show ?thesis by (simp add: poll.simps [of trk h timeout start w])
  next
    case False
    have "fst (poll trk h timeout start ?w1) = Inl (ResultTimeout timeout)"
      using "1.IH" "1.prems" False idle by simp
    with "1.prems" False show ?thesis by (simp add: poll.simps [of trk h timeout start w])
  qed
qed

lemma poll_settles:
  assumes "pending w = [(stx, Some t)]" and "clock w < t" and "t \<le> start + timeout"
    and "dflt (results w h) [] = []" and "trk (unsigned stx) = h"
  shows "\<exists>c. poll trk h timeout start w =
           (Inr [executes w (unsigned stx)], apply_tx trk stx (w\<lparr>clock := c, pending := []\<rparr>))"
  using assms
proof (induction trk h timeout start w rule: poll.induct)
  case (1 trk h timeout start w)
  let ?w1 = "settle trk (w\<lparr>clock := clock w + poll_interval\<rparr>)"
  have go: "poll trk h timeout start w = poll trk h timeout start ?w1"
    using "1.prems" by (simp add: poll.simps [of trk h timeout start w])
  show ?case
  proof (cases "t \<le> clock w + poll_interval")
    case True
    let ?w2 = "apply_tx trk stx (w\<lparr>clock := clock w + poll_interval, pending := []\<rparr>)"
    have w1: "?w1 = ?w2"
      using "1.prems"(1) True by (simp add: settle_def due_def)
    have "poll trk h timeout start ?w2 = (Inr [executes w (unsigned stx)], ?w2)"
      using poll_found [of ?w2 h trk timeout start] by (simp add: "1.prems"(5) [symmetric])
    with go w1 show ?thesis by auto
  next
    case False
    have w1: "?w1 = w\<lparr>clock := clock w + poll_interval\<rparr>"
      using "1.prems"(1) False by (simp add: settle_def due_def)
    from "1.prems" False have
      "\<exists>c. poll trk h timeout start ?w1 =
          (Inr [executes ?w1 (unsigned stx)], apply_tx trk stx (?w1\<lparr>clock := c, pending := []\<rparr>))"
      by (intro "1.IH") (auto simp: w1)
    with go w1 show ?thesis by auto
  qed
qed

text \<open>
  A broadcast on an idle stub whose latency is within the timeout is settled before the
  result query gives up: the query answers the transaction's flag.
\<close>

lemma stub_send_settles:
  assumes "pending w = []" and "latency w = Some d" and "d \<le> timeout" and "accepts w stx"
    and "dflt (results w (trk (unsigned stx))) [] = []"
  shows "\<exists>w2 c. stub_send trk stx w = (Inr (trk (unsigned stx)), w2) \<and> clock w2 = clock w
           \<and> poll trk (trk (unsigned stx)) timeout (clock w) w2 =
               (Inr [executes w (unsigned stx)], apply_tx trk stx (w\<lparr>clock := c\<rparr>))"
proof (cases "d = 0")
  case True
  let ?w2 = "apply_tx trk stx w"
  have send: "stub_send trk stx w = (Inr (trk (unsigned stx)), ?w2)"
    using assms True by (simp add: stub_send_def settle_def due_def pending_Nil_update)
  have "poll trk (trk (unsigned stx)) timeout (clock w) ?w2 = (Inr [executes w (unsigned stx)], ?w2)"
    using poll_found [of ?w2 "trk (unsigned stx)" trk timeout "clock w"] by simp
  with send show ?thesis by (intro exI [of _ ?w2] exI [of _ "clock w"]) simp
next
  case False
  let ?w2 = "w\<lparr>pending := [(stx, Some (clock w + d))]\<rparr>"
  have send: "stub_send trk stx w = (Inr (trk (unsigned stx)), ?w2)"
    using assms False by (simp add: stub_send_def settle_def due_def)
  obtain c where "poll trk (trk (unsigned stx)) timeout (clock w) ?w2 =
      (Inr [executes ?w2 (unsigned stx)], apply_tx trk stx (?w2\<lparr>clock := c, pending := []\<rparr>))"
    using poll_settles [of ?w2 stx "clock w + d" "clock w" timeout "trk (unsigned stx)" trk] assms False
    by auto
  moreover have "?w2\<lparr>clock := c, pending := []\<rparr> = w\<lparr>clock := c\<rparr>"
    using assms(1) by (cases w) simp
  ultimately show ?thesis using send by (intro exI [of _ ?w2] exI [of _ c]) simp
qed

text \<open>A broadcast on a stub that never settles leaves the result query to time out.\<close>

lemma stub_send_poll_timeout:
  assumes "latency w = None" and "\<forall>x\<in>set (pending w). snd x = None"
    and "dflt (results w (trk (unsigned stx))) [] = []" and "accepts w stx"
  shows "\<exists>w2 w'. stub_send trk stx w = (Inr (trk (unsigned stx)), w2) \<and> clock w2 = clock w
           \<and> poll trk (trk (unsigned stx)) timeout (clock w) w2 = (Inl (ResultTimeout timeout), w')"
proof -
  let ?w2 = "w\<lparr>pending := pending w @ [(stx, None)]\<rparr>"
  have send: "stub_send trk stx w = (Inr (trk (unsigned stx)), ?w2)"
    using assms by (simp add: stub_send_def settle_never_due)
  have "fst (poll trk (trk (unsigned stx)) timeout (clock w) ?w2) = Inl (ResultTimeout timeout)"
    using assms by (intro poll_never_settles) auto
  then obtain w' where "poll trk (trk (unsigned stx)) timeout (clock w) ?w2 = (Inl (ResultTimeout timeout), w')"
    by (metis prod.collapse)
  with send show ?thesis by auto
qed

text \<open>
  With its round budget, the loop gives the result of \<open>poll\<close> once the budget exceeds
  the number of polling intervals left before the deadline, rounded up.
\<close>

lemma rounds_step:
  fixes d m :: nat
  assumes "0 < d" and "(d + 999) div 1000 < Suc m"
  shows "(d - 1000 + 999) div 1000 < m"
proof (cases "1000 \<le> d")
  case True
  then have "(d + 999) div 1000 = ((d - 1000 + 999) + 1000) div 1000" by simp
  also have "\<dots> = (d - 1000 + 999) div 1000 + 1" by (rule div_add_self2) simp
  finally show ?thesis using assms(2) by simp
next
  case False
  have "1000 div 1000 \<le> (d + 999) div (1000::nat)" using assms(1) by (intro div_le_mono) simp
  with False assms(2) show ?thesis by simp
qed

lemma poll_fuel_enough:
  "(start + timeout - clock w + poll_interval - 1) div poll_interval < n \<Longrightarrow>
   poll_fuel n trk h timeout start w = Some (poll trk h timeout start w)"
proof (induction trk h timeout start w arbitrary: n rule: poll.induct)
  case (1 trk h timeout start w)
  then obtain m where n: "n = Suc m" by (cases n) auto
  show ?case
  proof (cases "dflt (results w h) [] = [] \<and> clock w < start + timeout")
    case True
    let ?w' = "settle trk (w\<lparr>clock := clock w + poll_interval\<rparr>)"
    have d: "0 < start + timeout - clock w" using True by simp
    have "(start + timeout - clock w + 999) div 1000 < Suc m"
      using "1.prems" n by (simp add: poll_interval_def add.commute)
    from rounds_step [OF d this]
    have "(start + timeout - clock ?w' + poll_interval - 1) div poll_interval < m"
      by (simp add: poll_interval_def diff_diff_left)
    then show ?thesis using "1.IH" True n by (simp add: poll.simps [of trk h timeout start w])
  next
    case False
    then show ?thesis using n by (auto simp: poll.simps [of trk h timeout start w])
  qed
qed

text \<open>The stub's \<^verbatim>\<open>tx.sign\<close> meets the signing contract of the client interface.\<close>

lemma stub_sign_faithful: "sign_faithful (stub_client trk)"
  by (simp add: sign_faithful_def stub_client_def stub_sign_def)

text \<open>
  Signing an input does not change the script-free transaction the signatures cover, so
  the inputs that verify afterwards are the ones that verified before and the one signed.
\<close>

lemma strip_scripts_update:
  "i < length (transfer_inputs tx) \<Longrightarrow>
   strip_scripts (tx\<lparr>transfer_inputs := (transfer_inputs tx)[i :=
      (transfer_inputs tx ! i)\<lparr>lockScript := l, unlockScript := u\<rparr>]\<rparr>) = strip_scripts tx"
  by (simp add: strip_scripts_def map_update) (metis length_map list_update_id nth_map)

lemma stub_signTransactionInput_verify:
  assumes "stub_signTransactionInput trk tx i ks w = (Inr tx', w')"
  shows "stub_verifyInput trk tx' j \<longleftrightarrow> j = i \<or> stub_verifyInput trk tx j"
  using assms
  by (auto simp: stub_signTransactionInput_def stub_verifyInput_def strip_scripts_update nth_list_update
      split: if_splits)

text \<open>
  The stub's capabilities throw only signing, network and confirmation errors; the
  result query's only error is its timeout.
\<close>

lemma poll_error:
  assumes "fst (poll trk h n start w) = Inl e"
  shows "e = ResultTimeout n"
proof -
  obtain w' where run: "poll trk h n start w = (Inl e, w')" using assms by (metis prod.collapse)
  from poll_bounds [OF run] show ?thesis by simp
qed

lemma stub_throws_within:
  "throws_within (stub_client trk) {e. error_kind e \<in> {Signing, Network, Confirmation}}"
  by (auto simp: throws_within_def stub_client_def stub_createAddress_def stub_getSeq_def
      stub_signTransaction_def stub_send_def stub_getResults_def stub_getAsset_def
      stub_signTransactionInput_def stub_sign_def dest!: poll_error split: list.splits option.splits if_splits)

text \<open>
  Settlement and polling never touch the key store.
\<close>

lemma keys_fold_apply_tx:
  "fresh (fold (apply_tx trk) xs w) = fresh w \<and> managed (fold (apply_tx trk) xs w) = managed w"
  by (induction xs arbitrary: w) (simp_all add: apply_tx_def Let_def)

lemma keys_settle [simp]: "fresh (settle trk w) = fresh w" "managed (settle trk w) = managed w"
  by (simp_all add: settle_def keys_fold_apply_tx)

lemma keys_poll [simp]:
  "fresh (snd (poll trk h timeout start w)) = fresh w \<and> managed (snd (poll trk h timeout start w)) = managed w"
proof (induction trk h timeout start w rule: poll.induct)
  case (1 trk h timeout start w)
  then show ?case by (simp add: poll.simps [of trk h timeout start w])
qed


text \<open>
  A loop on a chain where nothing settles needs one round per polling interval before
  the deadline, and one more to notice the deadline: fewer rounds run out.
\<close>

lemma poll_fuel_short:
  assumes "\<forall>x\<in>set (pending w). snd x = None" and "dflt (results w h) [] = []"
    and "n * poll_interval \<le> start + timeout - clock w"
  shows "poll_fuel n trk h timeout start w = None"
  using assms
proof (induction n arbitrary: w)
  case 0
  show ?case by simp
next
  case (Suc n)
  let ?w1 = "w\<lparr>clock := clock w + poll_interval\<rparr>"
  have settle: "settle trk ?w1 = ?w1" using Suc.prems(1) by (simp add: settle_never_due)
  have "clock w < start + timeout" using Suc.prems(3) by (simp add: poll_interval_def)
  moreover have "n * poll_interval \<le> start + timeout - clock ?w1"
    using Suc.prems(3) by (simp add: poll_interval_def)
  ultimately show ?case using Suc.IH [of ?w1] Suc.prems(1,2) by (simp add: settle)
qed

text \<open>A result the query returns is the one the chain has recorded for the tracker.\<close>

lemma poll_result_recorded:
  "poll trk h timeout start w = (Inr r, w') \<Longrightarrow> results w' h = Some r \<and> r \<noteq> []"
proof (induction trk h timeout start w rule: poll.induct)
  case (1 trk h timeout start w)
  then show ?case
    by (auto simp: poll.simps [of trk h timeout start w] dflt_def split: if_splits option.splits)
qed


lemma stub_client_sel:
  "key_createAddress (stub_client trk) = stub_createAddress"
  "chain_getSeq (stub_client trk) = stub_getSeq"
  "key_signTransaction (stub_client trk) = stub_signTransaction"
  "chain_sendSignedTransaction (stub_client trk) = stub_send trk"
  "chain_getTransactionResultsByTracker (stub_client trk) = stub_getResults trk"
  "chain_getAsset (stub_client trk) = stub_getAsset"
  "key_signTransactionInput (stub_client trk) = stub_signTransactionInput trk"
  "tx_sign (stub_client trk) = stub_sign"
  "tx_tracker (stub_client trk) = trk"
  by (simp_all add: stub_client_def)

lemma keys_poll_run:
  "poll trk h timeout start w = (r, w') \<Longrightarrow> fresh w' = fresh w \<and> managed w' = managed w"
  using keys_poll [of trk h timeout start w] by simp

lemma keys_stub_send:
  "stub_send trk stx w = (r, w') \<Longrightarrow> fresh w' = fresh w \<and> managed w' = managed w"
  by (auto simp: stub_send_def split: if_splits)

end
