(* ===== verification/Spec2Isabelle.thy ===== *)
theory Spec2Isabelle
  imports Submission Stub
begin

text \<open>
  \<^bold>\<open>Verification of the CodeChain submission helper.\<close>

  \<^emph>\<open>The program.\<close> \<^verbatim>\<open>src/src/util.ts\<close> is one TypeScript class, \<^verbatim>\<open>Helper\<close>, and
  two configuration functions. The constructor reads the settings \<^verbatim>\<open>rpc_url\<close> and
  \<^verbatim>\<open>network_id\<close> through \<^verbatim>\<open>getConfig\<close> and builds an SDK on them; the methods
  \<^verbatim>\<open>createP2PKHAddress\<close>, \<^verbatim>\<open>sendTransaction\<close>, \<^verbatim>\<open>sendAssetTransaction\<close>,
  \<^verbatim>\<open>mintAsset\<close> and \<^verbatim>\<open>signTransactionInput\<close> compose calls to the external
  CodeChain SDK (key store, signing, broadcast, result polling, asset lookup). All
  durable state lives outside the helper: in the chain and in the key store.

  \<^emph>\<open>The library.\<close>
  \<^item> \<^theory_text>\<open>Prelude\<close>: the error values, the error-state monad over
    \<^verbatim>\<open>HOL-Library.State_Monad\<close> in which every \<^verbatim>\<open>async\<close> method is modelled
    (\<open>bindE\<close> is \<^verbatim>\<open>await\<close>, \<open>Inl\<close> a thrown error), and the JavaScript
    destructuring defaults \<open>dflt\<close> and \<open>dfltE\<close> (a default is used only for
    \<^verbatim>\<open>undefined\<close>; an awaited default is called only then); the error taxonomy of
    spec section 5 (\<open>error_kind\<close>) and the typing of a computation's error channel,
    \<open>raises_within K m\<close>, with its rules \<open>raises_intros\<close>.
  \<^item> \<^theory_text>\<open>Config\<close>: \<^verbatim>\<open>getConfig\<close> and \<^verbatim>\<open>haveConfig\<close> (util.ts 121--131)
    over node-config's \<^verbatim>\<open>get\<close>/\<^verbatim>\<open>has\<close>, a configuration being a map from
    names to absent, \<^verbatim>\<open>null\<close> or a string.
  \<^item> \<^theory_text>\<open>Client\<close>: the SDK boundary (spec section 6), modelled from the spec since
    the SDK is not under \<^verbatim>\<open>src/\<close>: its data (mint and transfer transactions,
    signed transactions, assets), the capability record \<open>'w chain_client\<close> over an
    external state \<open>'w\<close>, and \<open>invoke\<close>, which runs one capability and appends
    the call and its success to the trace of an \<open>'w env\<close>. The trace is the sequence
    of suspension points; ordering and counting properties are stated on it, among them
    \<open>rethrows\<close> (no call after one threw, and the method throws exactly then).
    Also the signing contract
    \<open>sign_faithful c\<close> (\<^verbatim>\<open>tx.sign\<close> signs exactly what it is given), which
    the stub discharges (\<open>stub_sign_faithful\<close>), and the error contract
    \<open>throws_within c K\<close> (every capability throws only errors of \<open>K\<close>).
  \<^item> \<^theory_text>\<open>Helper\<close>: the class itself (util.ts 9--119): \<open>faucetSecret\<close>,
    \<open>faucetAddress\<close>, the state record \<open>helper\<close>, the constructor
    \<open>new_Helper\<close> (the process-wide configuration made an argument), and one
    definition per method, each over an arbitrary client \<open>c\<close>, with the
    method's option object as a record of optional fields. \<open>mint_tx\<close> is the
    transaction \<^verbatim>\<open>createMintAssetTransaction\<close> builds, \<open>result_timeout\<close> the
    300-second wait. Every theorem of this theory holds for every client.
  \<^item> \<^theory_text>\<open>Submission\<close>: the protocol state machine of spec section 4.1 (built,
    signed, broadcast, then confirmed or not) as an inductive step relation over trace
    events, parameterised by whether the caller awaits results; signing goes through
    the key store or through a raw secret, the two paths of spec section 9.
  \<^item> \<^theory_text>\<open>Stub\<close>: a chain client implemented on an explicit chain state
    (spec-modelled): a key store handing out fresh addresses, broadcast with a
    settlement latency (or none), settlement recording per-transaction result flags
    and minted assets, the SDK's result polling loop \<open>poll\<close> with its timeout and
    \<open>poll_fuel\<close>, the same loop with a budget of rounds, asset lookup, and input
    signing over the tracker of the script-free transaction with the chain's check of a
    signed input, \<open>stub_verifyInput\<close>. Its key store is duplicate-free when
    \<open>keys_fresh\<close> holds (no address both fresh and managed, or listed twice).
    \<open>stub_client trk\<close> packs it as a client, \<open>trk\<close> being the transactions'
    tracker hash; the stub ignores the key-store handle, having a single key store.
  \<^item> This theory: the properties that span the helper and the stub (the test scenarios
    of spec section 8), and the witnesses of every property.

  \<^emph>\<open>What is proved.\<close> For every client: \<open>sendAssetTransaction\<close> and
  \<open>sendTransaction\<close> refine the submission machine (C1, C21), so, the machine having no
  way back to \<open>Signed\<close>, neither ever broadcasts twice and each has broadcast exactly
  once when it returns (C11); on a client meeting the signing contract the
  transaction \<open>mintAsset\<close> broadcasts is the mint it built, with the helper's network,
  the caller's supply, recipient, secret and sequence, and fee 10 (C22); without
  \<open>awaitResult\<close> the method broadcasts once and polls nothing (C2); an explicit
  sequence is never looked up and an omitted one is looked up once, first (C3); the
  asset path looks the sequence up for the faucet address whatever the secret, and a
  \<^verbatim>\<open>null\<close> answer becomes 0 (C12); a minted asset is the client's answer to the
  lookup of output 0 in shard 0 made after the result query, for the caller's recipient
  or the address the key store derived first (C14); \<open>mintAsset\<close> broadcasts at
  most once (C19). The helper propagates its client's errors: each method throws only
  errors its client throws (\<open>mintAsset\<close> also its failed-mint error), stops at the
  first call that throws, and then throws (C29). Construction succeeds exactly when both
  settings are configured and otherwise fails with the first missing one's error (C8,
  C9, C18); the two ways a setting can be missing raise different errors (C10), and
  \<^verbatim>\<open>haveConfig\<close> agrees with \<^verbatim>\<open>getConfig\<close> (C17); the configured
  \<^verbatim>\<open>network_id\<close> is the network of the mint that is broadcast (C31).

  On the stub: a default mint of supply 100 returns an asset of quantity 100 owned by
  the freshly derived address (C4), and a mint with a recipient returns the asset
  owned by that recipient without deriving an address (C25); a mint that does not
  execute throws \<open>FailedToMint\<close> (C5); a transaction that never settles makes the
  awaited submission fail with the timeout, not hang (C6), one that settles in time
  makes it return the chain's flags (C26), and returned flags are the results the chain
  recorded for the transaction (C16); a submission never waits past the 300-second bound
  by more than one polling interval (C15) and needs at most 301 polling rounds, which
  may all be needed (C28). Signing an input changes that input's script slots only
  (C7), an index past the inputs throws (C20), and signing and the chain's check of an
  input round-trip, other inputs' signatures staying valid (C27). An omitted sequence
  that the chain answers with \<^verbatim>\<open>null\<close> makes \<^verbatim>\<open>sendTransaction\<close> fail (C13),
  one from a key-store account with a known sequence returns the hash of the
  transaction signed by that account (C23), and one from an account outside the key
  store fails with \<open>KeyNotFound\<close> before broadcasting (C24). An address from
  \<open>createP2PKHAddress\<close> was not managed before and is afterwards (C32), and only
  address derivation changes the key store (C33). Configuration errors arise at
  construction only, and domain errors only in \<open>mintAsset\<close> (C30).

  \<^emph>\<open>Bounds and termination.\<close> The only loop, the SDK's polling loop
  \<open>poll\<close>, is a \<^theory_text>\<open>function\<close> whose termination is proved with the measure
  \<open>start + timeout - clock\<close>: every round advances the clock by
  \<open>poll_interval\<close> (1000 ms) and the loop stops once the deadline is reached. The
  helper's wait bound is \<open>result_timeout\<close> = 300000 ms, as in util.ts line 74.
  \<open>poll_fuel n\<close> is the same loop with a budget of \<open>n\<close> rounds; it gives the
  result of \<open>poll\<close> as soon as \<open>n\<close> exceeds the number of polling intervals left
  before the deadline, rounded up (\<open>poll_fuel_enough\<close>), and runs out on a chain
  where nothing settles when \<open>n\<close> intervals fit before the deadline
  (\<open>poll_fuel_short\<close>). \<open>stub_client_rounds n\<close> is the stub whose result query
  has that budget; for the helper's 300-second wait 301 rounds are enough and 300 are
  not (C28). Sequence numbers, fees and supplies are JavaScript numbers used as counts,
  modelled as \<open>nat\<close>; no property depends on their width.

  \<^emph>\<open>Not modelled.\<close> The SDK's internals (transaction encoding, hashing, secp256k1
  signing, the JSON-RPC transport): they are external collaborators, present only
  through the capability record, with the hash as the parameter \<open>trk\<close> of the stub.
  Concurrent callers: the spec leaves their safety to the chain client, and each
  method here runs to completion on its own state. The TypeScript union types
  (\<open>number | string | U64\<close>) are collapsed to one type each.
\<close>

definition example_tracker :: "transaction \<Rightarrow> h256" where
  "example_tracker tx = 7"

definition example_world :: chain where
  "example_world =
     \<lparr>clock = 0, seqs = [''tccq9account'' \<mapsto> 4], managed = [''tccq9account''],
      fresh = [''tccq9fresh''], pending = [], results = Map.empty, assets = Map.empty,
      latency = Some 2500, accepts = (\<lambda>_. True), executes = (\<lambda>_. True)\<rparr>"

definition example_env :: "chain env" where
  "example_env = \<lparr>trace = [], world = example_world\<rparr>"

definition example_config :: config where
  "example_config = [''rpc_url'' \<mapsto> Some ''http://localhost:8080'', ''network_id'' \<mapsto> Some ''tc'']"

definition example_helper :: helper where
  "example_helper = \<lparr>keyStore = ''keystore'', sdk = \<lparr>server = ''http://localhost:8080'', networkId = ''tc''\<rparr>\<rparr>"

definition example_mint :: mint_params where
  "example_mint = \<lparr>mp_supply = 100, mp_recipient = None, mp_secret = None, mp_seq = None, mp_metadata = None\<rparr>"

definition example_transfer :: transfer_asset where
  "example_transfer =
     \<lparr>transfer_inputs = [\<lparr>prevOut = (1, 0), lockScript = [], unlockScript = []\<rparr>,
                        \<lparr>prevOut = (2, 1), lockScript = [], unlockScript = []\<rparr>],
      transfer_outputs = [(''tccq9fresh'', 5)]\<rparr>"

subsection \<open>A mint on the stub, end to end\<close>

lemma mintAsset_stub_run:
  assumes "fresh (world s) = a # as" and "pending (world s) = []"
    and "latency (world s) = Some d" and "d \<le> result_timeout"
    and "\<forall>stx. accepts (world s) stx"
    and "dflt (results (world s) (trk (mint_tx h '''' n a))) [] = []"
  shows "\<exists>s'. run_state (mintAsset (stub_client trk) h
             \<lparr>mp_supply = n, mp_recipient = None, mp_secret = None, mp_seq = None, mp_metadata = None\<rparr>) s
           = (if executes (world s) (mint_tx h '''' n a)
              then Inr (mint_output (trk (mint_tx h '''' n a))
                          \<lparr>mint_networkId = networkId (sdk h), mint_shardId = 0, mint_metadata = '''',
                           mint_supply = n, mint_recipient = a\<rparr>)
              else (case assets (world s) (trk (mint_tx h '''' n a), 0, 0) of
                      None \<Rightarrow> Inl FailedToMint | Some a' \<Rightarrow> Inr a'), s')
         \<and> take 1 (drop (length (trace s)) (trace s')) = [(CreateAddress, True)]"
proof -
  let ?tx = "mint_tx h '''' n a"
  let ?w1 = "(world s)\<lparr>fresh := as, managed := a # managed (world s)\<rparr>"
  let ?stx = "\<lparr>unsigned = ?tx, signed_seq = dflt (seqs (world s) faucetAddress) 0, signed_fee = 10,
               signer = RawSecret faucetSecret\<rparr>"
  obtain w2 c where send: "stub_send trk ?stx ?w1 = (Inr (trk ?tx), w2)" and clk: "clock w2 = clock (world s)"
    and poll: "poll trk (trk ?tx) result_timeout (clock (world s)) w2 =
                 (Inr [executes (world s) ?tx], apply_tx trk ?stx (?w1\<lparr>clock := c\<rparr>))"
    using stub_send_settles [of ?w1 d result_timeout ?stx trk] assms by auto
  show ?thesis
    using assms send clk poll
    by (simp add: mintAsset_def createP2PKHAddress_def sendAssetTransaction_def stub_client_def
        stub_createAddress_def stub_getSeq_def stub_sign_def stub_getResults_def stub_getAsset_def
        apply_tx_def mint_tx_def Let_def split: option.split)
qed

text \<open>
  C4: on a stub that settles within the timeout and executes the mint,
  \<^verbatim>\<open>mintAsset\<close> with supply 100, default metadata and no recipient first derives a
  fresh P2PKH address and returns an asset of quantity 100, in shard 0, owned by that
  address.
\<close>

theorem mintAsset_stub_default:
  assumes "fresh (world s) = a # as" and "pending (world s) = []"
    and "latency (world s) = Some d" and "d \<le> result_timeout"
    and "\<forall>stx. accepts (world s) stx" and "executes (world s) (mint_tx h '''' 100 a)"
    and "dflt (results (world s) (trk (mint_tx h '''' 100 a))) [] = []"
  shows "\<exists>asset s'. run_state (mintAsset (stub_client trk) h
             \<lparr>mp_supply = 100, mp_recipient = None, mp_secret = None, mp_seq = None, mp_metadata = None\<rparr>) s
           = (Inr asset, s')
         \<and> asset_quantity asset = 100 \<and> asset_owner asset = a \<and> asset_shard asset = 0
         \<and> take 1 (drop (length (trace s)) (trace s')) = [(CreateAddress, True)]"
  using mintAsset_stub_run [of s a as d trk h 100] assms by (auto simp: mint_output_def)

text \<open>
  C5: when the mint settles but does not execute, so that the lookup of its asset
  answers \<^verbatim>\<open>null\<close>, \<^verbatim>\<open>mintAsset\<close> throws \<^verbatim>\<open>Failed to mint asset\<close> rather
  than returning nothing.
\<close>

theorem mintAsset_stub_not_found:
  assumes "fresh (world s) = a # as" and "pending (world s) = []"
    and "latency (world s) = Some d" and "d \<le> result_timeout"
    and "\<forall>stx. accepts (world s) stx" and "\<not> executes (world s) (mint_tx h '''' n a)"
    and "dflt (results (world s) (trk (mint_tx h '''' n a))) [] = []"
    and "assets (world s) (trk (mint_tx h '''' n a), 0, 0) = None"
  shows "fst (run_state (mintAsset (stub_client trk) h
           \<lparr>mp_supply = n, mp_recipient = None, mp_secret = None, mp_seq = None, mp_metadata = None\<rparr>) s)
         = Inl FailedToMint"
  using mintAsset_stub_run [of s a as d trk h n] assms by auto

text \<open>
  C6: when no broadcast transaction ever settles, an awaited
  \<^verbatim>\<open>sendAssetTransaction\<close> ends with the confirmation-timeout error of the 300-second
  bound; it does not hang.
\<close>

theorem sendAssetTransaction_stub_timeout:
  assumes "latency (world s) = None" and "\<forall>x\<in>set (pending (world s)). snd x = None"
    and "dflt (results (world s) (trk tx)) [] = []" and "\<forall>stx. accepts (world s) stx"
    and "dflt (ao_awaitResult opts) True"
  shows "fst (run_state (sendAssetTransaction (stub_client trk) tx (Some opts)) s)
         = Inl (ResultTimeout result_timeout)"
proof -
  obtain n where n: "n = (case ao_seq opts of None \<Rightarrow> dflt (seqs (world s) faucetAddress) 0 | Some m \<Rightarrow> m)"
    by simp
  let ?stx = "\<lparr>unsigned = tx, signed_seq = n, signed_fee = dflt (ao_fee opts) 10,
               signer = RawSecret (dflt (ao_secret opts) faucetSecret)\<rparr>"
  obtain w2 w' where send: "stub_send trk ?stx (world s) = (Inr (trk tx), w2)"
    and clk: "clock w2 = clock (world s)"
    and poll: "poll trk (trk tx) result_timeout (clock (world s)) w2 = (Inl (ResultTimeout result_timeout), w')"
    using stub_send_poll_timeout [of "world s" trk ?stx result_timeout] assms by auto
  show ?thesis
    using assms send clk poll n
    by (cases "ao_seq opts")
       (simp_all add: sendAssetTransaction_def stub_client_def stub_getSeq_def stub_sign_def
        stub_getResults_def Let_def)
qed

subsection \<open>Input signing, sequence lookups and the stub invariant\<close>

text \<open>
  C26: on a stub that settles within the 300-second bound, an awaited
  \<^verbatim>\<open>sendAssetTransaction\<close> returns, and returns the chain's result flags for the
  transaction: it does not time out when the chain confirms in time.
\<close>

theorem sendAssetTransaction_stub_confirms:
  assumes "pending (world s) = []" and "latency (world s) = Some d" and "d \<le> result_timeout"
    and "\<forall>stx. accepts (world s) stx" and "dflt (results (world s) (trk tx)) [] = []"
    and "dflt (ao_awaitResult opts) True"
  shows "fst (run_state (sendAssetTransaction (stub_client trk) tx (Some opts)) s)
         = Inr (Some [executes (world s) tx])"
proof -
  obtain n where n: "n = (case ao_seq opts of None \<Rightarrow> dflt (seqs (world s) faucetAddress) 0 | Some m \<Rightarrow> m)"
    by simp
  let ?stx = "\<lparr>unsigned = tx, signed_seq = n, signed_fee = dflt (ao_fee opts) 10,
               signer = RawSecret (dflt (ao_secret opts) faucetSecret)\<rparr>"
  obtain w2 c where send: "stub_send trk ?stx (world s) = (Inr (trk tx), w2)"
    and clk: "clock w2 = clock (world s)"
    and poll: "poll trk (trk tx) result_timeout (clock (world s)) w2 =
                 (Inr [executes (world s) tx], apply_tx trk ?stx ((world s)\<lparr>clock := c\<rparr>))"
    using stub_send_settles [of "world s" d result_timeout ?stx trk] assms by auto
  show ?thesis
    using assms send clk poll n
    by (cases "ao_seq opts")
       (simp_all add: sendAssetTransaction_def stub_client_def stub_getSeq_def stub_sign_def
        stub_getResults_def Let_def)
qed

text \<open>
  C7: \<^verbatim>\<open>signTransactionInput\<close> on the stub changes only the script slots of the
  input at the given index: the number of inputs, the outputs, every other input and
  the spent output of that input are unchanged, and so is the chain.
\<close>

theorem signTransactionInput_stub_frame:
  assumes "run_state (signTransactionInput (stub_client trk) h tx i) s = (Inr tx', s')"
  shows "length (transfer_inputs tx') = length (transfer_inputs tx)
       \<and> transfer_outputs tx' = transfer_outputs tx
       \<and> (\<forall>j < length (transfer_inputs tx). j \<noteq> i \<longrightarrow> transfer_inputs tx' ! j = transfer_inputs tx ! j)
       \<and> prevOut (transfer_inputs tx' ! i) = prevOut (transfer_inputs tx ! i)
       \<and> world s' = world s"
  using assms
  by (auto simp: signTransactionInput_def stub_client_def stub_signTransactionInput_def split: if_splits)

text \<open>C20: signing an input past the last one throws the SDK's invalid-index error.\<close>

theorem signTransactionInput_stub_bad_index:
  assumes "length (transfer_inputs tx) \<le> i"
  shows "fst (run_state (signTransactionInput (stub_client trk) h tx i) s) = Inl (InvalidIndex i)"
  using assms by (simp add: signTransactionInput_def stub_client_def stub_signTransactionInput_def)

text \<open>
  C27: signing and verifying an input round-trip on the stub: after
  \<^verbatim>\<open>signTransactionInput\<close> signs input \<open>i\<close>, the chain's check accepts input
  \<open>i\<close>, and every other input verifies exactly when it did before, so inputs can be
  signed one after another in any order.
\<close>

theorem signTransactionInput_stub_roundtrip:
  assumes "run_state (signTransactionInput (stub_client trk) h tx i) s = (Inr tx', s')"
  shows "\<forall>j. stub_verifyInput trk tx' j \<longleftrightarrow> j = i \<or> stub_verifyInput trk tx j"
  using assms stub_signTransactionInput_verify
  by (auto simp: signTransactionInput_def stub_client_def split: prod.splits sum.splits)

text \<open>
  C13: \<^verbatim>\<open>sendTransaction\<close> has no fallback for a \<^verbatim>\<open>null\<close> sequence: when the
  sequence is omitted and the chain answers \<^verbatim>\<open>null\<close>, the signer receives it and
  the call fails, although the account's key is in the key store.
\<close>

theorem sendTransaction_stub_null_seq:
  assumes "sp_seq p = None" and "seqs (world s) (sp_account p) = None"
    and "sp_account p \<in> set (managed (world s))"
  shows "fst (run_state (sendTransaction (stub_client trk) h tx p) s) = Inl InvalidSeq"
  using assms
  by (simp add: sendTransaction_def stub_client_def stub_getSeq_def stub_signTransaction_def Let_def)

text \<open>
  C16: result flags an awaited \<^verbatim>\<open>sendAssetTransaction\<close> returns on the stub are the
  chain's: the non-empty results the chain has recorded under the tracker of the
  submitted transaction.
\<close>

theorem sendAssetTransaction_stub_flags_recorded:
  assumes "run_state (sendAssetTransaction (stub_client trk) tx opts) s = (Inr (Some flags), s')"
  shows "results (world s') (trk tx) = Some flags \<and> flags \<noteq> []"
  using assms
  by (auto simp: sendAssetTransaction_def stub_client_sel stub_getSeq_def stub_sign_def stub_getResults_def
      Let_def dfltE_def dest!: poll_result_recorded split: prod.splits sum.splits option.splits if_splits)

text \<open>
  C15: an awaited \<^verbatim>\<open>sendAssetTransaction\<close> on the stub returns or throws within the
  300-second bound plus one polling interval of its start, and never moves the clock
  back.
\<close>

theorem sendAssetTransaction_stub_wait_bound:
  assumes "run_state (sendAssetTransaction (stub_client trk) tx opts) s = (r, s')"
  shows "clock (world s) \<le> clock (world s')
         \<and> clock (world s') < clock (world s) + result_timeout + poll_interval"
  using assms
  by (auto simp: sendAssetTransaction_def stub_client_def stub_getSeq_def stub_sign_def
      Let_def dfltE_def poll_interval_def dest!: stub_getResults_clock clock_stub_send
      split: prod.splits sum.splits option.splits if_splits)

text \<open>
  C23: on the stub, \<^verbatim>\<open>sendTransaction\<close> from an account of the key store, with a
  sequence given or known to the chain, broadcasts the transaction signed by that
  account with that sequence and fee 10 by default, and returns its hash.
\<close>

theorem sendTransaction_stub_ok:
  assumes "sp_account p \<in> set (managed (world s))"
    and "sp_seq p = Some n \<or> sp_seq p = None \<and> seqs (world s) (sp_account p) = Some n"
    and "accepts (world s) \<lparr>unsigned = tx, signed_seq = n, signed_fee = dflt (sp_fee p) 10,
                             signer = KeyStoreAccount (sp_account p)\<rparr>"
  shows "fst (run_state (sendTransaction (stub_client trk) h tx p) s) = Inr (trk tx)
       \<and> (SendSignedTransaction \<lparr>unsigned = tx, signed_seq = n, signed_fee = dflt (sp_fee p) 10,
                                signer = KeyStoreAccount (sp_account p)\<rparr>, True)
           \<in> set (trace (snd (run_state (sendTransaction (stub_client trk) h tx p) s)))"
  using assms
  by (auto simp: sendTransaction_def stub_client_def stub_getSeq_def stub_signTransaction_def
      stub_send_def Let_def)

text \<open>
  C24: on the stub, \<^verbatim>\<open>sendTransaction\<close> from an account whose key is not in the key
  store fails with that error and broadcasts nothing (spec section 4, error paths).
\<close>

theorem sendTransaction_stub_key_not_found:
  assumes "sp_account p \<notin> set (managed (world s))"
  shows "fst (run_state (sendTransaction (stub_client trk) h tx p) s) = Inl (KeyNotFound (sp_account p))
       \<and> broadcasts (trace (snd (run_state (sendTransaction (stub_client trk) h tx p) s)))
         = broadcasts (trace s)"
  using assms
  by (auto simp: sendTransaction_def stub_client_def stub_getSeq_def stub_signTransaction_def
      Let_def dfltE_def split: option.split)

text \<open>
  C25: \<^verbatim>\<open>mintAsset\<close> with a recipient derives no address: on a stub that settles
  within the timeout and executes the mint, it returns the asset of quantity
  \<open>supply\<close> in shard 0 owned by the given recipient, and leaves the key store as it was.
\<close>

theorem mintAsset_stub_recipient:
  assumes "pending (world s) = []" and "latency (world s) = Some d" and "d \<le> result_timeout"
    and "\<forall>stx. accepts (world s) stx" and "executes (world s) (mint_tx h '''' n r)"
    and "dflt (results (world s) (trk (mint_tx h '''' n r))) [] = []"
  shows "\<exists>s'. run_state (mintAsset (stub_client trk) h
             \<lparr>mp_supply = n, mp_recipient = Some r, mp_secret = None, mp_seq = None, mp_metadata = None\<rparr>) s
           = (Inr \<lparr>asset_tracker = trk (mint_tx h '''' n r), asset_index = 0, asset_shard = 0,
                   asset_owner = r, asset_quantity = n\<rparr>, s')
         \<and> fresh (world s') = fresh (world s) \<and> managed (world s') = managed (world s)"
proof -
  let ?tx = "mint_tx h '''' n r"
  let ?stx = "\<lparr>unsigned = ?tx, signed_seq = dflt (seqs (world s) faucetAddress) 0, signed_fee = 10,
               signer = RawSecret faucetSecret\<rparr>"
  obtain w2 c where send: "stub_send trk ?stx (world s) = (Inr (trk ?tx), w2)"
    and clk: "clock w2 = clock (world s)"
    and poll: "poll trk (trk ?tx) result_timeout (clock (world s)) w2 =
                 (Inr [executes (world s) ?tx], apply_tx trk ?stx ((world s)\<lparr>clock := c\<rparr>))"
    using stub_send_settles [of "world s" d result_timeout ?stx trk] assms by auto
  show ?thesis
    using assms send clk poll
    by (simp add: mintAsset_def sendAssetTransaction_def stub_client_sel stub_getSeq_def stub_sign_def
        stub_getResults_def stub_getAsset_def apply_tx_def mint_tx_def mint_output_def Let_def)
qed

text \<open>The calls of the default mint on the example chain, evaluated.\<close>

lemma mintAsset_example_trace:
  "trace (snd (run_state (mintAsset (stub_client example_tracker) example_helper example_mint) example_env))
   = [(CreateAddress, True), (GetSeq faucetAddress, True), (SignRaw faucetSecret 10 0, True),
      (SendSignedTransaction \<lparr>unsigned = mint_tx example_helper '''' 100 ''tccq9fresh'', signed_seq = 0,
        signed_fee = 10, signer = RawSecret faucetSecret\<rparr>, True),
      (GetTransactionResults 7 result_timeout, True), (GetAsset 7 0 0, True)]"
  by (simp add: mintAsset_def createP2PKHAddress_def sendAssetTransaction_def stub_client_def
      stub_createAddress_def stub_getSeq_def stub_sign_def stub_send_def stub_getResults_def
      stub_getAsset_def example_env_def example_world_def example_mint_def example_tracker_def
      faucetAddress_def Let_def dfltE_def settle_def due_def poll.simps result_timeout_def
      poll_interval_def apply_tx_def split: option.split)

text \<open>
  C28: an awaited \<^verbatim>\<open>sendAssetTransaction\<close> needs at most 301 polling rounds of the
  SDK's result query, and may need all of them: on a stub whose client gives up after
  301 rounds it behaves exactly as on the stub, and with 300 rounds a transaction that
  never settles exhausts the budget before the 300-second deadline is noticed.
\<close>

theorem sendAssetTransaction_stub_rounds:
  "run_state (sendAssetTransaction (stub_client_rounds 301 trk) tx opts) s
     = run_state (sendAssetTransaction (stub_client trk) tx opts) s
   \<and> (latency (world s) = None \<and> (\<forall>x\<in>set (pending (world s)). snd x = None)
      \<and> dflt (results (world s) (trk tx)) [] = [] \<and> (\<forall>stx. accepts (world s) stx) \<longrightarrow>
      fst (run_state (sendAssetTransaction (stub_client_rounds 300 trk) tx None) s)
        = Inl (RpcError ''polling rounds exhausted''))"
proof (intro conjI impI)
  have gr: "chain_getTransactionResultsByTracker (stub_client_rounds 301 trk) h result_timeout
        = stub_getResults trk h result_timeout" for h
    by (rule ext) (simp add: stub_client_rounds_def stub_client_sel stub_getResults_def poll_fuel_enough
        result_timeout_def poll_interval_def)
  have sel: "chain_getSeq (stub_client_rounds n trk) = stub_getSeq"
    "tx_sign (stub_client_rounds n trk) = stub_sign"
    "chain_sendSignedTransaction (stub_client_rounds n trk) = stub_send trk"
    "tx_tracker (stub_client_rounds n trk) = trk" for n
    by (simp_all add: stub_client_rounds_def stub_client_sel)
  show "run_state (sendAssetTransaction (stub_client_rounds 301 trk) tx opts) s
     = run_state (sendAssetTransaction (stub_client trk) tx opts) s"
    unfolding sendAssetTransaction_def Let_def sel gr stub_client_sel by (rule refl)
next
  assume a: "latency (world s) = None \<and> (\<forall>x\<in>set (pending (world s)). snd x = None)
      \<and> dflt (results (world s) (trk tx)) [] = [] \<and> (\<forall>stx. accepts (world s) stx)"
  let ?stx = "\<lparr>unsigned = tx, signed_seq = dflt (seqs (world s) faucetAddress) 0, signed_fee = 10,
               signer = RawSecret faucetSecret\<rparr>"
  let ?w2 = "(world s)\<lparr>pending := pending (world s) @ [(?stx, None)]\<rparr>"
  have send: "stub_send trk ?stx (world s) = (Inr (trk tx), ?w2)"
    using a by (simp add: stub_send_def settle_never_due)
  have "poll_fuel 300 trk (trk tx) result_timeout (clock (world s)) ?w2 = None"
    using a by (intro poll_fuel_short) (simp_all add: result_timeout_def poll_interval_def)
  with send show "fst (run_state (sendAssetTransaction (stub_client_rounds 300 trk) tx None) s)
        = Inl (RpcError ''polling rounds exhausted'')"
    by (simp add: sendAssetTransaction_def stub_client_rounds_def stub_client_sel stub_getSeq_def
        stub_sign_def no_options_def Let_def)
qed

text \<open>
  C30: configuration errors arise at construction only, and domain errors only in
  \<^verbatim>\<open>mintAsset\<close> (spec section 5): a failed \<^verbatim>\<open>new Helper\<close> fails with a
  configuration error, while on the stub every method throws only signing, network or
  confirmation errors, \<^verbatim>\<open>mintAsset\<close> also its failed-mint error.
\<close>

theorem configuration_errors_at_construction:
  "(new_Helper cfg ks = Inl e \<longrightarrow> error_kind e = Configuration)
   \<and> raises_within {e. error_kind e \<in> {Signing, Network, Confirmation}} (createP2PKHAddress (stub_client trk) h)
   \<and> raises_within {e. error_kind e \<in> {Signing, Network, Confirmation}} (sendTransaction (stub_client trk) h tx p)
   \<and> raises_within {e. error_kind e \<in> {Signing, Network, Confirmation}} (sendAssetTransaction (stub_client trk) tx opts)
   \<and> raises_within {e. error_kind e \<in> {Signing, Network, Confirmation}} (signTransactionInput (stub_client trk) h ttx i)
   \<and> raises_within {e. error_kind e \<in> {Signing, Network, Confirmation, Domain}} (mintAsset (stub_client trk) h mp)"
proof -
  have "raises_within (insert FailedToMint {e. error_kind e \<in> {Signing, Network, Confirmation}}) (mintAsset (stub_client trk) h mp)"
    by (rule raises_within_mintAsset [OF stub_throws_within])
  then have "raises_within {e. error_kind e \<in> {Signing, Network, Confirmation, Domain}} (mintAsset (stub_client trk) h mp)"
    by (rule raises_within_mono) auto
  moreover note raises_within_createP2PKHAddress [OF stub_throws_within]
    raises_within_sendTransaction [OF stub_throws_within] raises_within_sendAssetTransaction [OF stub_throws_within]
    raises_within_signTransactionInput [OF stub_throws_within]
  ultimately show ?thesis using new_Helper_error_kind by blast
qed

text \<open>
  C31: the network a helper was configured with reaches the chain: the mint
  \<^verbatim>\<open>mintAsset\<close> broadcasts, on a client whose \<^verbatim>\<open>tx.sign\<close> signs what it is
  given, carries the configured \<^verbatim>\<open>network_id\<close>, shard 0 and the caller's supply.
\<close>

theorem configured_network_reaches_mint:
  assumes "new_Helper cfg ks = Inr h" and "sign_faithful c"
    and "run_state (mintAsset c h p) s = (r, s')" and "trace s' = trace s @ es"
    and "(SendSignedTransaction stx, b) \<in> set es"
  shows "\<exists>m. unsigned stx = MintTx m \<and> cfg ''network_id'' = Some (Some (mint_networkId m))
           \<and> mint_shardId m = 0 \<and> mint_supply m = mp_supply p"
proof -
  obtain rcpt where "unsigned stx = mint_tx h (dflt (mp_metadata p) '''') (mp_supply p) rcpt"
    using mintAsset_broadcast_unsigned [OF assms(2-)] by blast
  with new_Helper_network [OF assms(1)] show ?thesis by (simp add: mint_tx_def)
qed

text \<open>
  C32: the key store hands out a new key: on a stub whose fresh and managed addresses
  are all distinct, the address \<^verbatim>\<open>createP2PKHAddress\<close> returns was not managed
  before, is managed afterwards, and the key store stays duplicate-free.
\<close>

theorem createP2PKHAddress_stub_fresh_key:
  assumes "keys_fresh (world s)" and "run_state (createP2PKHAddress (stub_client trk) h) s = (Inr a, s')"
  shows "a \<notin> set (managed (world s)) \<and> set (managed (world s')) = insert a (set (managed (world s)))
       \<and> keys_fresh (world s')"
  using assms
  by (auto simp: createP2PKHAddress_def stub_client_def stub_createAddress_def keys_fresh_def
      split: list.splits)

lemma sendAssetTransaction_stub_keys:
  "run_state (sendAssetTransaction (stub_client trk) tx opts) s = (r, s') \<Longrightarrow>
   fresh (world s') = fresh (world s) \<and> managed (world s') = managed (world s)"
  by (auto simp: sendAssetTransaction_def stub_client_sel stub_getSeq_def stub_sign_def stub_getResults_def
      Let_def dfltE_def dest!: keys_poll_run keys_stub_send split: prod.splits sum.splits option.splits if_splits)

text \<open>
  C33: only address derivation changes the key store. On the stub,
  \<^verbatim>\<open>sendTransaction\<close>, \<^verbatim>\<open>sendAssetTransaction\<close> and \<^verbatim>\<open>signTransactionInput\<close>
  leave its fresh and managed addresses as they were, and \<^verbatim>\<open>mintAsset\<close> moves exactly
  one fresh address to the managed ones when, and only when, it is given no recipient.
\<close>

theorem helper_key_store_frame:
  "(fresh (world (snd (run_state (sendTransaction (stub_client trk) h tx p) s))),
    managed (world (snd (run_state (sendTransaction (stub_client trk) h tx p) s))))
     = (fresh (world s), managed (world s))
   \<and> (fresh (world (snd (run_state (sendAssetTransaction (stub_client trk) tx opts) s))),
      managed (world (snd (run_state (sendAssetTransaction (stub_client trk) tx opts) s))))
     = (fresh (world s), managed (world s))
   \<and> (fresh (world (snd (run_state (signTransactionInput (stub_client trk) h ttx i) s))),
      managed (world (snd (run_state (signTransactionInput (stub_client trk) h ttx i) s))))
     = (fresh (world s), managed (world s))
   \<and> (fresh (world (snd (run_state (mintAsset (stub_client trk) h mp) s))),
      managed (world (snd (run_state (mintAsset (stub_client trk) h mp) s))))
     = (case (mp_recipient mp, fresh (world s)) of
          (None, a # as) \<Rightarrow> (as, a # managed (world s))
        | _ \<Rightarrow> (fresh (world s), managed (world s)))"
proof (intro conjI)
  show "(fresh (world (snd (run_state (sendAssetTransaction (stub_client trk) tx opts) s))),
      managed (world (snd (run_state (sendAssetTransaction (stub_client trk) tx opts) s))))
     = (fresh (world s), managed (world s))"
    using sendAssetTransaction_stub_keys [OF prod.collapse [symmetric]] by simp
  show "(fresh (world (snd (run_state (sendTransaction (stub_client trk) h tx p) s))),
    managed (world (snd (run_state (sendTransaction (stub_client trk) h tx p) s))))
     = (fresh (world s), managed (world s))"
    by (auto simp: sendTransaction_def stub_client_sel stub_getSeq_def stub_signTransaction_def Let_def
        dfltE_def dest!: keys_stub_send split: prod.splits sum.splits option.splits if_splits)
  show "(fresh (world (snd (run_state (signTransactionInput (stub_client trk) h ttx i) s))),
      managed (world (snd (run_state (signTransactionInput (stub_client trk) h ttx i) s))))
     = (fresh (world s), managed (world s))"
    by (auto simp: signTransactionInput_def stub_client_sel stub_signTransactionInput_def)
  show "(fresh (world (snd (run_state (mintAsset (stub_client trk) h mp) s))),
      managed (world (snd (run_state (mintAsset (stub_client trk) h mp) s))))
     = (case (mp_recipient mp, fresh (world s)) of
          (None, a # as) \<Rightarrow> (as, a # managed (world s))
        | _ \<Rightarrow> (fresh (world s), managed (world s)))"
    by (auto simp: mintAsset_def createP2PKHAddress_def stub_client_sel stub_createAddress_def
        stub_getAsset_def Let_def dfltE_def dest!: sendAssetTransaction_stub_keys
        split: prod.splits sum.splits option.splits list.splits)
qed

subsection \<open>Witnesses\<close>

text \<open>Each property applied at a concrete input of the stub, its hypotheses discharged there.\<close>

theorem sendAssetTransaction_refines_witness:
  "\<exists>es p. trace (snd (run_state (sendAssetTransaction (stub_client example_tracker)
              (mint_tx example_helper '''' 100 ''tccq9fresh'') None) example_env)) = trace example_env @ es
      \<and> sub_run True Built es p \<and> final True p
      \<and> phase_result p (fst (run_state (sendAssetTransaction (stub_client example_tracker)
              (mint_tx example_helper '''' 100 ''tccq9fresh'') None) example_env))"
  using Submission.sendAssetTransaction_refines [of "stub_client example_tracker"
      "mint_tx example_helper '''' 100 ''tccq9fresh''" None example_env, OF prod.collapse [symmetric]]
  by (simp add: no_options_def)

theorem sendAssetTransaction_no_await_witness:
  "\<exists>es. trace (snd (run_state (sendAssetTransaction (stub_client example_tracker) (PayTx ''tccq9account'' 5)
            (Some (no_options\<lparr>ao_awaitResult := Some False\<rparr>))) example_env)) = trace example_env @ es
      \<and> broadcasts es = 1 \<and> \<not> list_ex (is_GetResults \<circ> fst) es"
proof -
  let ?m = "sendAssetTransaction (stub_client example_tracker) (PayTx ''tccq9account'' 5)
              (Some (no_options\<lparr>ao_awaitResult := Some False\<rparr>))"
  have run: "run_state ?m example_env = (Inr None, snd (run_state ?m example_env))"
    by (simp add: sendAssetTransaction_def no_options_def stub_client_def stub_getSeq_def stub_sign_def
        stub_send_def settle_def due_def example_env_def example_world_def Let_def)
  have aw: "ao_awaitResult (no_options\<lparr>ao_awaitResult := Some False\<rparr>) = Some False" by simp
  from Helper.sendAssetTransaction_no_await [OF run aw] show ?thesis by simp
qed

theorem sendTransaction_lookups_witness:
  "\<exists>es. trace (snd (run_state (sendTransaction (stub_client example_tracker) example_helper
            (PayTx ''tccq9fresh'' 5) \<lparr>sp_account = ''tccq9account'', sp_fee = None, sp_seq = None\<rparr>)
            example_env)) = trace example_env @ es
      \<and> lookups es = 1 \<and> take 1 (map fst es) = [GetSeq ''tccq9account'']"
  using Helper.sendTransaction_lookups [of "stub_client example_tracker" example_helper
      "PayTx ''tccq9fresh'' 5" "\<lparr>sp_account = ''tccq9account'', sp_fee = None, sp_seq = None\<rparr>"
      example_env, OF prod.collapse [symmetric]]
  by simp

theorem mintAsset_stub_default_witness:
  "\<exists>asset s'. run_state (mintAsset (stub_client example_tracker) example_helper example_mint) example_env
      = (Inr asset, s')
    \<and> asset_quantity asset = 100 \<and> asset_owner asset = ''tccq9fresh'' \<and> asset_shard asset = 0
    \<and> take 1 (drop (length (trace example_env)) (trace s')) = [(CreateAddress, True)]"
  using mintAsset_stub_default [of example_env "''tccq9fresh''" "[]" 2500 example_helper example_tracker]
  by (simp add: example_env_def example_world_def example_mint_def result_timeout_def example_tracker_def)

theorem mintAsset_stub_not_found_witness:
  "fst (run_state (mintAsset (stub_client example_tracker) example_helper example_mint)
      (example_env\<lparr>world := example_world\<lparr>executes := (\<lambda>_. False)\<rparr>\<rparr>)) = Inl FailedToMint"
  using mintAsset_stub_not_found [of "example_env\<lparr>world := example_world\<lparr>executes := (\<lambda>_. False)\<rparr>\<rparr>"
      "''tccq9fresh''" "[]" 2500 example_helper 100 example_tracker]
  by (simp add: example_env_def example_world_def example_mint_def result_timeout_def example_tracker_def)

theorem sendAssetTransaction_stub_timeout_witness:
  "fst (run_state (sendAssetTransaction (stub_client example_tracker) (PayTx ''tccq9fresh'' 5) (Some no_options))
      (example_env\<lparr>world := example_world\<lparr>latency := None\<rparr>\<rparr>)) = Inl (ResultTimeout result_timeout)"
  using sendAssetTransaction_stub_timeout [of "example_env\<lparr>world := example_world\<lparr>latency := None\<rparr>\<rparr>"
      example_tracker "PayTx ''tccq9fresh'' 5" no_options]
  by (simp add: example_env_def example_world_def no_options_def)

theorem signTransactionInput_stub_frame_witness:
  "\<exists>tx' s'. run_state (signTransactionInput (stub_client example_tracker) example_helper example_transfer 1)
       example_env = (Inr tx', s')
    \<and> length (transfer_inputs tx') = length (transfer_inputs example_transfer)
    \<and> transfer_outputs tx' = transfer_outputs example_transfer
    \<and> (\<forall>j < length (transfer_inputs example_transfer). j \<noteq> 1 \<longrightarrow>
         transfer_inputs tx' ! j = transfer_inputs example_transfer ! j)
    \<and> prevOut (transfer_inputs tx' ! 1) = prevOut (transfer_inputs example_transfer ! 1)
    \<and> world s' = world example_env"
proof -
  have "\<exists>tx' s'. run_state (signTransactionInput (stub_client example_tracker) example_helper example_transfer 1)
       example_env = (Inr tx', s')"
    by (simp add: signTransactionInput_def stub_client_def stub_signTransactionInput_def example_transfer_def)
  then obtain tx' s' where run: "run_state (signTransactionInput (stub_client example_tracker) example_helper
       example_transfer 1) example_env = (Inr tx', s')" by blast
  show ?thesis using run signTransactionInput_stub_frame [OF run] by blast
qed

theorem signTransactionInput_stub_bad_index_witness:
  "fst (run_state (signTransactionInput (stub_client example_tracker) example_helper example_transfer 2)
      example_env) = Inl (InvalidIndex 2)"
  using signTransactionInput_stub_bad_index [of example_transfer 2 example_tracker example_helper example_env]
  by (simp add: example_transfer_def)

theorem new_Helper_succeeds_witness:
  "\<exists>h. new_Helper example_config ''keystore'' = Inr h"
proof -
  have "haveConfig example_config ''rpc_url'' \<and> haveConfig example_config ''network_id''"
    by (simp add: haveConfig_def config_has_def config_get_def example_config_def)
  then show ?thesis using Helper.new_Helper_succeeds [of example_config "''keystore''"] by blast
qed

theorem new_Helper_error_witness:
  "new_Helper (example_config(''rpc_url'' := None)) ''keystore'' = Inl (ConfigUndefined ''rpc_url'')"
proof -
  have "getConfig (example_config(''rpc_url'' := None)) ''rpc_url'' = Inl (ConfigUndefined ''rpc_url'')"
    by (simp add: getConfig_def config_get_def)
  then show ?thesis
    using Helper.new_Helper_error [of "example_config(''rpc_url'' := None)" "''keystore''"
        "ConfigUndefined ''rpc_url''"] by blast
qed

theorem getConfig_errors_witness:
  "getConfig (example_config(''network_id'' \<mapsto> None)) ''network_id'' = Inl (NotSpecified ''network_id'')"
  using Config.getConfig_errors [of "example_config(''network_id'' \<mapsto> None)" "''network_id''"
      "NotSpecified ''network_id''"]
  by simp

theorem submissions_broadcast_once_witness:
  "(\<exists>es. trace (snd (run_state (sendAssetTransaction (stub_client example_tracker) (PayTx ''tccq9fresh'' 5) None)
        example_env)) = trace example_env @ es \<and> broadcasts es \<le> 1
      \<and> (\<not> isl (fst (run_state (sendAssetTransaction (stub_client example_tracker) (PayTx ''tccq9fresh'' 5) None)
        example_env)) \<longrightarrow> broadcasts es = 1))
   \<and> (\<exists>es. trace (snd (run_state (sendTransaction (stub_client example_tracker) example_helper
        (PayTx ''tccq9fresh'' 5) \<lparr>sp_account = ''tccq9account'', sp_fee = None, sp_seq = None\<rparr>) example_env))
        = trace example_env @ es \<and> broadcasts es \<le> 1
      \<and> (\<not> isl (fst (run_state (sendTransaction (stub_client example_tracker) example_helper
        (PayTx ''tccq9fresh'' 5) \<lparr>sp_account = ''tccq9account'', sp_fee = None, sp_seq = None\<rparr>) example_env))
        \<longrightarrow> broadcasts es = 1))"
  using Submission.submissions_broadcast_once [where c = "stub_client example_tracker"
      and tx = "PayTx ''tccq9fresh'' 5" and opts = None and s = example_env and h = example_helper
      and tx' = "PayTx ''tccq9fresh'' 5" and p = "\<lparr>sp_account = ''tccq9account'', sp_fee = None, sp_seq = None\<rparr>",
      OF prod.collapse [symmetric] prod.collapse [symmetric]]
  by simp

theorem sendAssetTransaction_seq_lookup_witness:
  "\<exists>es. trace (snd (run_state (sendAssetTransaction (stub_client example_tracker) (PayTx ''tccq9fresh'' 5)
            (Some no_options)) example_env)) = trace example_env @ es
      \<and> take 2 (map fst es) = [GetSeq faucetAddress, SignRaw faucetSecret 10 0]"
proof -
  have q: "chain_getSeq (stub_client example_tracker) faucetAddress (world example_env) = (Inr None, example_world)"
    by (simp add: stub_client_def stub_getSeq_def example_env_def example_world_def faucetAddress_def)
  have "ao_seq no_options = None" by (simp add: no_options_def)
  from Helper.sendAssetTransaction_seq_lookup [OF prod.collapse [symmetric] this q]
  show ?thesis by (simp add: no_options_def)
qed

theorem sendTransaction_stub_null_seq_witness:
  "fst (run_state (sendTransaction (stub_client example_tracker) example_helper (PayTx ''tccq9fresh'' 5)
      \<lparr>sp_account = ''tccq9account'', sp_fee = None, sp_seq = None\<rparr>)
      (example_env\<lparr>world := example_world\<lparr>seqs := Map.empty\<rparr>\<rparr>)) = Inl InvalidSeq"
  using sendTransaction_stub_null_seq [of "\<lparr>sp_account = ''tccq9account'', sp_fee = None, sp_seq = None\<rparr>"
      "example_env\<lparr>world := example_world\<lparr>seqs := Map.empty\<rparr>\<rparr>" example_tracker example_helper
      "PayTx ''tccq9fresh'' 5"]
  by (simp add: example_env_def example_world_def)

theorem mintAsset_returns_lookup_witness:
  "\<exists>a s' es w. run_state (mintAsset (stub_client example_tracker) example_helper example_mint) example_env
      = (Inr a, s') \<and> trace s' = trace example_env @ es
    \<and> stub_getAsset 7 0 0 w = (Inr (Some a), world s')
    \<and> last es = (GetAsset 7 0 0, True) \<and> (GetTransactionResults 7 result_timeout, True) \<in> set es
    \<and> take 1 es = [(CreateAddress, True)]"
proof -
  obtain s' where run: "run_state (mintAsset (stub_client example_tracker) example_helper example_mint) example_env
      = (Inr (mint_output 7 \<lparr>mint_networkId = ''tc'', mint_shardId = 0, mint_metadata = '''',
                             mint_supply = 100, mint_recipient = ''tccq9fresh''\<rparr>), s')"
    using mintAsset_stub_run [of example_env "''tccq9fresh''" "[]" 2500 example_tracker example_helper 100]
    by (auto simp: example_env_def example_world_def example_mint_def result_timeout_def
        example_tracker_def example_helper_def)
  from Helper.mintAsset_returns_lookup [OF run] show ?thesis
    using run by (auto simp: stub_client_sel example_tracker_def example_mint_def)
qed

theorem sendAssetTransaction_stub_wait_bound_witness:
  "clock (world (snd (run_state (sendAssetTransaction (stub_client example_tracker)
      (mint_tx example_helper '''' 100 ''tccq9fresh'') None) example_env)))
   < clock (world example_env) + result_timeout + poll_interval"
  using sendAssetTransaction_stub_wait_bound [of example_tracker "mint_tx example_helper '''' 100 ''tccq9fresh''"
      None example_env, OF prod.collapse [symmetric]]
  by simp

theorem sendAssetTransaction_stub_flags_recorded_witness:
  "results (world (snd (run_state (sendAssetTransaction (stub_client example_tracker) (PayTx ''tccq9fresh'' 5)
      (Some no_options)) example_env))) 7 = Some [True]"
proof -
  have run: "run_state (sendAssetTransaction (stub_client example_tracker) (PayTx ''tccq9fresh'' 5)
      (Some no_options)) example_env = (Inr (Some [True]), snd (run_state (sendAssetTransaction
      (stub_client example_tracker) (PayTx ''tccq9fresh'' 5) (Some no_options)) example_env))"
    by (simp add: sendAssetTransaction_def stub_client_sel stub_getSeq_def stub_sign_def stub_send_def
        stub_getResults_def no_options_def example_env_def example_world_def example_tracker_def
        Let_def settle_def due_def poll.simps result_timeout_def poll_interval_def apply_tx_def)
  from sendAssetTransaction_stub_flags_recorded [OF run] show ?thesis by (simp add: example_tracker_def)
qed

theorem haveConfig_iff_getConfig_witness:
  "haveConfig example_config ''rpc_url''"
proof -
  have "getConfig example_config ''rpc_url'' = Inr ''http://localhost:8080''"
    by (simp add: getConfig_def config_get_def example_config_def)
  then show ?thesis using Config.haveConfig_iff_getConfig by blast
qed

theorem new_Helper_fields_witness:
  "keyStore example_helper = ''keystore''
   \<and> example_config ''rpc_url'' = Some (Some (server (sdk example_helper)))"
proof -
  have "new_Helper example_config ''keystore'' = Inr example_helper"
    by (simp add: new_Helper_def getConfig_def config_get_def example_config_def example_helper_def)
  from Helper.new_Helper_fields [OF this] show ?thesis by blast
qed

theorem mintAsset_single_broadcast_witness:
  "\<exists>es. trace (snd (run_state (mintAsset (stub_client example_tracker) example_helper example_mint)
      example_env)) = trace example_env @ es \<and> broadcasts es \<le> 1"
  using Helper.mintAsset_single_broadcast [of "stub_client example_tracker" example_helper example_mint
      example_env, OF prod.collapse [symmetric]]
  by simp


theorem mintAsset_broadcast_contents_witness:
  "\<exists>rcpt n. \<lparr>unsigned = mint_tx example_helper '''' 100 ''tccq9fresh'', signed_seq = 0,
        signed_fee = 10, signer = RawSecret faucetSecret\<rparr>
     = \<lparr>unsigned = mint_tx example_helper '''' 100 rcpt, signed_seq = n, signed_fee = 10,
        signer = RawSecret faucetSecret\<rparr>"
proof -
  have tr: "trace (snd (run_state (mintAsset (stub_client example_tracker) example_helper example_mint)
              example_env)) = trace example_env @
     [(CreateAddress, True), (GetSeq faucetAddress, True), (SignRaw faucetSecret 10 0, True),
      (SendSignedTransaction \<lparr>unsigned = mint_tx example_helper '''' 100 ''tccq9fresh'', signed_seq = 0,
        signed_fee = 10, signer = RawSecret faucetSecret\<rparr>, True),
      (GetTransactionResults 7 result_timeout, True), (GetAsset 7 0 0, True)]"
    using mintAsset_example_trace by (simp add: example_env_def)
  have mem: "(SendSignedTransaction \<lparr>unsigned = mint_tx example_helper '''' 100 ''tccq9fresh'', signed_seq = 0,
        signed_fee = 10, signer = RawSecret faucetSecret\<rparr>, True) \<in> set
     [(CreateAddress, True), (GetSeq faucetAddress, True), (SignRaw faucetSecret 10 0, True),
      (SendSignedTransaction \<lparr>unsigned = mint_tx example_helper '''' 100 ''tccq9fresh'', signed_seq = 0,
        signed_fee = 10, signer = RawSecret faucetSecret\<rparr>, True),
      (GetTransactionResults 7 result_timeout, True), (GetAsset 7 0 0, True)]"
    by simp
  from Helper.mintAsset_broadcast_contents [OF stub_sign_faithful prod.collapse [symmetric] tr mem]
  show ?thesis by (simp add: example_mint_def)
qed

theorem sendTransaction_stub_ok_witness:
  "fst (run_state (sendTransaction (stub_client example_tracker) example_helper (PayTx ''tccq9fresh'' 5)
      \<lparr>sp_account = ''tccq9account'', sp_fee = None, sp_seq = None\<rparr>) example_env) = Inr 7
   \<and> (SendSignedTransaction \<lparr>unsigned = PayTx ''tccq9fresh'' 5, signed_seq = 4, signed_fee = 10,
                              signer = KeyStoreAccount ''tccq9account''\<rparr>, True)
       \<in> set (trace (snd (run_state (sendTransaction (stub_client example_tracker) example_helper
             (PayTx ''tccq9fresh'' 5) \<lparr>sp_account = ''tccq9account'', sp_fee = None, sp_seq = None\<rparr>)
             example_env)))"
  using sendTransaction_stub_ok [of "\<lparr>sp_account = ''tccq9account'', sp_fee = None, sp_seq = None\<rparr>"
      example_env 4 "PayTx ''tccq9fresh'' 5" example_tracker example_helper]
  by (simp add: example_env_def example_world_def example_tracker_def)

theorem sendTransaction_stub_key_not_found_witness:
  "fst (run_state (sendTransaction (stub_client example_tracker) example_helper (PayTx ''tccq9fresh'' 5)
      \<lparr>sp_account = ''tccq9nobody'', sp_fee = None, sp_seq = Some 1\<rparr>) example_env)
     = Inl (KeyNotFound ''tccq9nobody'')
   \<and> broadcasts (trace (snd (run_state (sendTransaction (stub_client example_tracker) example_helper
       (PayTx ''tccq9fresh'' 5) \<lparr>sp_account = ''tccq9nobody'', sp_fee = None, sp_seq = Some 1\<rparr>)
       example_env))) = 0"
  using sendTransaction_stub_key_not_found [of "\<lparr>sp_account = ''tccq9nobody'', sp_fee = None, sp_seq = Some 1\<rparr>"
      example_env example_tracker example_helper "PayTx ''tccq9fresh'' 5"]
  by (simp add: example_env_def example_world_def)

theorem mintAsset_stub_recipient_witness:
  "\<exists>s'. run_state (mintAsset (stub_client example_tracker) example_helper
       \<lparr>mp_supply = 100, mp_recipient = Some ''tccq9account'', mp_secret = None, mp_seq = None,
        mp_metadata = None\<rparr>) example_env
     = (Inr \<lparr>asset_tracker = 7, asset_index = 0, asset_shard = 0, asset_owner = ''tccq9account'',
             asset_quantity = 100\<rparr>, s')
   \<and> fresh (world s') = [''tccq9fresh''] \<and> managed (world s') = [''tccq9account'']"
  using mintAsset_stub_recipient [of example_env 2500 example_helper 100 "''tccq9account''" example_tracker]
  by (simp add: example_env_def example_world_def example_tracker_def result_timeout_def)

theorem sendTransaction_refines_witness:
  "\<exists>es q. trace (snd (run_state (sendTransaction (stub_client example_tracker) example_helper
              (PayTx ''tccq9fresh'' 5) \<lparr>sp_account = ''tccq9account'', sp_fee = None, sp_seq = None\<rparr>)
              example_env)) = trace example_env @ es
      \<and> sub_run False Built es q \<and> final False q
      \<and> (q = Broadcast \<longleftrightarrow> \<not> isl (fst (run_state (sendTransaction (stub_client example_tracker)
              example_helper (PayTx ''tccq9fresh'' 5)
              \<lparr>sp_account = ''tccq9account'', sp_fee = None, sp_seq = None\<rparr>) example_env)))"
  using Submission.sendTransaction_refines [of "stub_client example_tracker" example_helper
      "PayTx ''tccq9fresh'' 5" "\<lparr>sp_account = ''tccq9account'', sp_fee = None, sp_seq = None\<rparr>"
      example_env, OF prod.collapse [symmetric]]
  by simp


theorem sendAssetTransaction_stub_confirms_witness:
  "fst (run_state (sendAssetTransaction (stub_client example_tracker) (PayTx ''tccq9fresh'' 5)
      (Some no_options)) example_env) = Inr (Some [True])"
  using sendAssetTransaction_stub_confirms [of example_env 2500 example_tracker "PayTx ''tccq9fresh'' 5" no_options]
  by (simp add: example_env_def example_world_def example_tracker_def no_options_def result_timeout_def)


theorem signTransactionInput_stub_roundtrip_witness:
  "\<exists>tx' s'. run_state (signTransactionInput (stub_client example_tracker) example_helper example_transfer 1)
       example_env = (Inr tx', s')
    \<and> stub_verifyInput example_tracker tx' 1 \<and> \<not> stub_verifyInput example_tracker tx' 0"
proof -
  have "\<exists>tx' s'. run_state (signTransactionInput (stub_client example_tracker) example_helper example_transfer 1)
       example_env = (Inr tx', s')"
    by (simp add: signTransactionInput_def stub_client_def stub_signTransactionInput_def example_transfer_def)
  then obtain tx' s' where run: "run_state (signTransactionInput (stub_client example_tracker) example_helper
       example_transfer 1) example_env = (Inr tx', s')" by blast
  have "\<not> stub_verifyInput example_tracker example_transfer 0"
    by (simp add: stub_verifyInput_def example_transfer_def p2pkh_lock_def)
  then show ?thesis using run signTransactionInput_stub_roundtrip [OF run] by auto
qed


theorem configuration_errors_at_construction_witness:
  "new_Helper Map.empty ''keystore'' = Inl (ConfigUndefined ''rpc_url'')
   \<and> error_kind (ConfigUndefined ''rpc_url'') = Configuration
   \<and> fst (run_state (sendTransaction (stub_client example_tracker) example_helper (PayTx ''tccq9fresh'' 5)
         \<lparr>sp_account = ''tccq9nobody'', sp_fee = None, sp_seq = Some 1\<rparr>) example_env) = Inl (KeyNotFound ''tccq9nobody'')
   \<and> error_kind (KeyNotFound ''tccq9nobody'') \<noteq> Configuration"
proof -
  have cfg: "new_Helper Map.empty ''keystore'' = Inl (ConfigUndefined ''rpc_url'')"
    by (simp add: new_Helper_def getConfig_cases)
  have run: "fst (run_state (sendTransaction (stub_client example_tracker) example_helper (PayTx ''tccq9fresh'' 5)
         \<lparr>sp_account = ''tccq9nobody'', sp_fee = None, sp_seq = Some 1\<rparr>) example_env) = Inl (KeyNotFound ''tccq9nobody'')"
    by (simp add: sendTransaction_def stub_client_def stub_signTransaction_def example_env_def example_world_def
        Let_def)
  from configuration_errors_at_construction [where cfg = Map.empty and ks = "''keystore''"
      and e = "ConfigUndefined ''rpc_url''" and trk = example_tracker and h = example_helper
      and tx = "PayTx ''tccq9fresh'' 5" and p = "\<lparr>sp_account = ''tccq9nobody'', sp_fee = None, sp_seq = Some 1\<rparr>"]
  have "error_kind (ConfigUndefined ''rpc_url'') = Configuration"
    and "raises_within {e. error_kind e \<in> {Signing, Network, Confirmation}} (sendTransaction (stub_client example_tracker)
           example_helper (PayTx ''tccq9fresh'' 5) \<lparr>sp_account = ''tccq9nobody'', sp_fee = None, sp_seq = Some 1\<rparr>)"
    using cfg by blast+
  with cfg run show ?thesis unfolding raises_within_def by fastforce
qed


theorem configured_network_reaches_mint_witness:
  "\<exists>m. mint_tx example_helper '''' 100 ''tccq9fresh'' = MintTx m
     \<and> example_config ''network_id'' = Some (Some (mint_networkId m)) \<and> mint_shardId m = 0 \<and> mint_supply m = 100"
proof -
  have cfg: "new_Helper example_config ''keystore'' = Inr example_helper"
    by (simp add: new_Helper_def getConfig_cases example_config_def example_helper_def)
  have tr: "trace (snd (run_state (mintAsset (stub_client example_tracker) example_helper example_mint)
              example_env)) = trace example_env @
     [(CreateAddress, True), (GetSeq faucetAddress, True), (SignRaw faucetSecret 10 0, True),
      (SendSignedTransaction \<lparr>unsigned = mint_tx example_helper '''' 100 ''tccq9fresh'', signed_seq = 0,
        signed_fee = 10, signer = RawSecret faucetSecret\<rparr>, True),
      (GetTransactionResults 7 result_timeout, True), (GetAsset 7 0 0, True)]"
    using mintAsset_example_trace by (simp add: example_env_def)
  from configured_network_reaches_mint [OF cfg stub_sign_faithful prod.collapse [symmetric] tr, of _ True]
  show ?thesis by (simp add: example_mint_def)
qed

theorem createP2PKHAddress_stub_fresh_key_witness:
  "''tccq9fresh'' \<notin> set (managed (world example_env))
   \<and> set (managed (world (snd (run_state (createP2PKHAddress (stub_client example_tracker) example_helper)
       example_env)))) = {''tccq9fresh'', ''tccq9account''}"
proof -
  have keys: "keys_fresh (world example_env)"
    by (simp add: keys_fresh_def example_env_def example_world_def)
  have run: "run_state (createP2PKHAddress (stub_client example_tracker) example_helper) example_env
      = (Inr ''tccq9fresh'', snd (run_state (createP2PKHAddress (stub_client example_tracker) example_helper)
         example_env))"
    by (simp add: createP2PKHAddress_def stub_client_def stub_createAddress_def example_env_def example_world_def)
  from createP2PKHAddress_stub_fresh_key [OF keys run] show ?thesis
    by (simp add: example_env_def example_world_def)
qed

theorem sendAssetTransaction_stub_rounds_witness:
  "fst (run_state (sendAssetTransaction (stub_client_rounds 300 example_tracker) (PayTx ''tccq9fresh'' 5) None)
      (example_env\<lparr>world := example_world\<lparr>latency := None\<rparr>\<rparr>)) = Inl (RpcError ''polling rounds exhausted'')
   \<and> run_state (sendAssetTransaction (stub_client_rounds 301 example_tracker) (PayTx ''tccq9fresh'' 5) None)
      (example_env\<lparr>world := example_world\<lparr>latency := None\<rparr>\<rparr>)
     = run_state (sendAssetTransaction (stub_client example_tracker) (PayTx ''tccq9fresh'' 5) None)
      (example_env\<lparr>world := example_world\<lparr>latency := None\<rparr>\<rparr>)"
  using sendAssetTransaction_stub_rounds [where trk = example_tracker and tx = "PayTx ''tccq9fresh'' 5"
      and opts = None and s = "example_env\<lparr>world := example_world\<lparr>latency := None\<rparr>\<rparr>"]
  by (simp add: example_env_def example_world_def)

end
